theory Spec2Isabelle
  imports Complex_Main "HOL-Library.AList" "HOL-Library.Sublist"
begin

section \<open>Uncertainty partitioning notebook (docs/notebooks/partitioning.ipynb)\<close>

text \<open>
  The notebook fetches monthly temperature series, combines them into an ensemble,
  resamples to annual means, calls the partitioning routine and draws the fraction of
  total variance. The library calls the notebook makes (pandas, xarray, numpy,
  matplotlib) are modelled on the labelled arrays defined below, and every Python
  exception is a value of \<open>error\<close> on the left of a sum. A Python string is the list
  of its code points, for the code points below 256.
\<close>

subsection \<open>Exceptions\<close>

datatype error =
    AttributeError string
  | KeyError string
  | ValueError string
  | TypeError string
  | IOError string
  | OverflowError string

definition bind :: "error + 'a \<Rightarrow> ('a \<Rightarrow> error + 'b) \<Rightarrow> error + 'b" where
  "bind m f = (case m of Inl e \<Rightarrow> Inl e | Inr x \<Rightarrow> f x)"

subsection \<open>Floating-point numbers\<close>

text \<open>
  The values of a float64 array: a finite number, the negative zero, the two infinities
  and NaN; \<open>Fin 0\<close> is the positive zero. The operations follow IEEE 754 on the
  special values and the signs of the zeros; on finite operands they give the exact
  result, so the rounding of float64, its overflow and its underflow are not modelled.
\<close>

datatype num = Fin real | NegZero | PosInf | NegInf | NaN

definition negative :: "num \<Rightarrow> bool" where
  "negative a = (case a of Fin x \<Rightarrow> x < 0 | NegZero \<Rightarrow> True | PosInf \<Rightarrow> False
                 | NegInf \<Rightarrow> True | NaN \<Rightarrow> False)"

definition is_zero :: "num \<Rightarrow> bool" where
  "is_zero a \<longleftrightarrow> a = Fin 0 \<or> a = NegZero"

definition is_inf :: "num \<Rightarrow> bool" where
  "is_inf a \<longleftrightarrow> a = PosInf \<or> a = NegInf"

definition zero_of :: "bool \<Rightarrow> num" where
  "zero_of neg = (if neg then NegZero else Fin 0)"

definition inf_of :: "bool \<Rightarrow> num" where
  "inf_of neg = (if neg then NegInf else PosInf)"

definition finite_value :: "num \<Rightarrow> real" where
  "finite_value a = (case a of Fin x \<Rightarrow> x | _ \<Rightarrow> 0)"

text \<open>
  \<open>a / b\<close>: NaN for a NaN operand, for two infinities and for two zeros; a signed
  infinity for a number divided by a zero.
\<close>

definition fdiv :: "num \<Rightarrow> num \<Rightarrow> num" where
  "fdiv a b =
     (let neg = (negative a \<noteq> negative b) in
      if a = NaN \<or> b = NaN then NaN
      else if is_inf a then (if is_inf b then NaN else inf_of neg)
      else if is_inf b then zero_of neg
      else if is_zero b then (if is_zero a then NaN else inf_of neg)
      else if is_zero a then zero_of neg
      else Fin (finite_value a / finite_value b))"

definition fmul :: "num \<Rightarrow> num \<Rightarrow> num" where
  "fmul a b =
     (let neg = (negative a \<noteq> negative b) in
      if a = NaN \<or> b = NaN then NaN
      else if is_inf a \<or> is_inf b then (if is_zero a \<or> is_zero b then NaN else inf_of neg)
      else if is_zero a \<or> is_zero b then zero_of neg
      else Fin (finite_value a * finite_value b))"

definition fadd :: "num \<Rightarrow> num \<Rightarrow> num" where
  "fadd a b =
     (if a = NaN \<or> b = NaN then NaN
      else if is_inf a then (if is_inf b \<and> b \<noteq> a then NaN else a)
      else if is_inf b then b
      else if a = NegZero then b
      else if b = NegZero then a
      else Fin (finite_value a + finite_value b))"

subsection \<open>Labelled arrays\<close>

record date =
  year :: int
  month :: nat
  day :: nat

datatype index = DateIndex "date list" | LabelIndex "string list" | IntIndex "int list"

text \<open>A coordinate: the dimension it runs along, its values and its attribute dictionary.\<close>

record coord =
  cdim :: string
  cvals :: index
  cattrs :: "(string \<times> string) list"

text \<open>
  A DataArray with dimensions (uncertainty, time): \<open>rows\<close> pairs each label of the
  dimension coordinate \<open>uncertainty\<close> with the values along \<open>time\<close>, and a label may
  occur more than once; \<open>coords\<close> holds the other coordinates by name (the dimension
  coordinate \<open>time\<close> among them), \<open>attrs\<close> the array's attribute dictionary.
  Dictionaries are association lists read with \<open>map_of\<close>.
\<close>

record data_array =
  rows :: "(string \<times> num list) list"
  coords :: "(string \<times> coord) list"
  attrs :: "(string \<times> string) list"

subsection \<open>The operations of \<open>add_lead_time_coord\<close>\<close>

text \<open>\<open>da.time\<close>: attribute access to the coordinate named \<open>time\<close>.\<close>

definition get_time :: "data_array \<Rightarrow> error + coord" where
  "get_time da = (case map_of (coords da) ''time'' of
                    None \<Rightarrow> Inl (AttributeError ''time'')
                  | Some c \<Rightarrow> Inr c)"

text \<open>
  \<open>.dt.year\<close>: the calendar year of each entry of a date-valued coordinate, an int64
  array; the accessor \<open>.dt\<close> raises on a coordinate that holds no dates.
\<close>

definition dt_year :: "coord \<Rightarrow> error + int list" where
  "dt_year c = (case cvals c of
                  DateIndex ds \<Rightarrow> Inr (map year ds)
                | LabelIndex ls \<Rightarrow> Inl (AttributeError ''dt'')
                | IntIndex ns \<Rightarrow> Inl (AttributeError ''dt''))"

text \<open>
  \<open>years - r\<close> for an int64 array and a Python integer: numpy converts the integer
  to int64 and raises \<open>OverflowError\<close> when it is out of the bounds of int64; the
  subtraction is that of int64 and wraps around silently.
\<close>

definition int64 :: "int \<Rightarrow> bool" where
  "int64 n \<longleftrightarrow> - (2 ^ 63) \<le> n \<and> n < 2 ^ 63"

definition wrap64 :: "int \<Rightarrow> int" where
  "wrap64 n = (n + 2 ^ 63) mod 2 ^ 64 - 2 ^ 63"

definition subtract64 :: "int list \<Rightarrow> int \<Rightarrow> error + int list" where
  "subtract64 ys r =
     (if int64 r then Inr (map (\<lambda>y. wrap64 (y - r)) ys)
      else Inl (OverflowError ''Python integer out of bounds for int64''))"

text \<open>
  \<open>da[name] = values\<close>: the coordinate \<open>name\<close>, running along the dimension \<open>along\<close>, is added
  or replaced.
\<close>

definition setitem :: "string \<Rightarrow> string \<Rightarrow> int list \<Rightarrow> data_array \<Rightarrow> data_array" where
  "setitem name along ns da =
     da\<lparr>coords := AList.update name \<lparr>cdim = along, cvals = IntIndex ns, cattrs = []\<rparr> (coords da)\<rparr>"

text \<open>\<open>da[name].attrs[k] = v\<close>: the attribute dictionary of that coordinate is updated.\<close>

definition set_coord_attr :: "string \<Rightarrow> string \<Rightarrow> string \<Rightarrow> data_array \<Rightarrow> error + data_array" where
  "set_coord_attr name k v da =
     (case map_of (coords da) name of
        None \<Rightarrow> Inl (KeyError name)
      | Some c \<Rightarrow>
          Inr (da\<lparr>coords := AList.update name (c\<lparr>cattrs := AList.update k v (cattrs c)\<rparr>) (coords da)\<rparr>))"

subsection \<open>\<open>add_lead_time_coord\<close>\<close>

text \<open>
  The function mutates \<open>da\<close> and returns \<open>lead_time\<close>: the model returns the pair of
  the returned lead-time values and the array after the call. Python's built-in
  \<open>int\<close> is the parameter \<open>to_int\<close>: the integer that a string denotes, or the
  exception that \<open>int\<close> raises on it.
\<close>

definition add_lead_time_coord ::
  "(string \<Rightarrow> error + int) \<Rightarrow> data_array \<Rightarrow> string \<Rightarrow> error + (int list \<times> data_array)" where
  "add_lead_time_coord to_int da ref =
     bind (get_time da) (\<lambda>t.
     bind (dt_year t) (\<lambda>years.
     bind (to_int ref) (\<lambda>r.
     bind (subtract64 years r) (\<lambda>lead_time.
       let da1 = setitem ''Lead time'' (cdim t) lead_time da
       in bind (set_coord_attr ''Lead time'' ''units'' (''years from '' @ ref) da1) (\<lambda>da2.
          Inr (lead_time, da2))))))"

subsection \<open>The operations of \<open>graph_fraction_of_total_variance\<close>\<close>

text \<open>
  \<open>da.sel(uncertainty=label)\<close>: a label that the coordinate does not hold is a
  \<open>KeyError\<close>; a label held once selects its row and drops the dimension; a label
  held more than once selects all its rows and keeps the dimension.
\<close>

datatype selection = Row "num list" | Rows "num list list"

definition matching :: "string \<Rightarrow> (string \<times> 'a) list \<Rightarrow> 'a list" where
  "matching label rs = map snd (filter (\<lambda>(l, r). l = label) rs)"

definition sel_uncertainty :: "string \<Rightarrow> data_array \<Rightarrow> error + selection" where
  "sel_uncertainty label da = (case matching label (rows da) of
                                 [] \<Rightarrow> Inl (KeyError label)
                               | [r] \<Rightarrow> Inr (Row r)
                               | r # r' # rs \<Rightarrow> Inr (Rows (r # r' # rs)))"

text \<open>
  \<open>variance / total\<close>: a selected row is broadcast over the dimension
  \<open>uncertainty\<close> and the division works pointwise along \<open>time\<close>; the result keeps
  the coordinates and drops the attributes. Selected rows that kept the dimension
  \<open>uncertainty\<close> have to be aligned with the array along it, which raises
  \<open>ValueError\<close> because their index repeats a label.
\<close>

definition divide_by :: "data_array \<Rightarrow> selection \<Rightarrow> error + data_array" where
  "divide_by da tot =
     (case tot of
        Row t \<Rightarrow> Inr (da\<lparr>rows := map (\<lambda>(l, r). (l, map2 fdiv r t)) (rows da), attrs := []\<rparr>)
      | Rows ts \<Rightarrow> Inl (ValueError ''cannot align: the index has duplicate values''))"

text \<open>\<open>da * 100\<close>: every value is multiplied by the scalar.\<close>

definition times_scalar :: "data_array \<Rightarrow> real \<Rightarrow> data_array" where
  "times_scalar da k =
     da\<lparr>rows := map (\<lambda>(l, r). (l, map (\<lambda>x. fmul x (Fin k)) r)) (rows da), attrs := []\<rparr>"

text \<open>
  \<open>s + y1\<close> for two selections: two rows are added pointwise; a row is broadcast over
  the rows of the other operand; two selections that both kept the dimension
  \<open>uncertainty\<close>, under different repeated labels, cannot be aligned.
\<close>

definition add_selections :: "selection \<Rightarrow> selection \<Rightarrow> error + selection" where
  "add_selections s y =
     (case (s, y) of
        (Row a, Row b) \<Rightarrow> Inr (Row (map2 fadd a b))
      | (Row a, Rows bs) \<Rightarrow> Inr (Rows (map (\<lambda>b. map2 fadd a b) bs))
      | (Rows as, Row b) \<Rightarrow> Inr (Rows (map (\<lambda>a. map2 fadd a b) as))
      | (Rows as, Rows bs) \<Rightarrow> Inl (ValueError ''cannot align: the index has duplicate values''))"

text \<open>Boolean-mask indexing: the entries at the positions that the flags keep.\<close>

definition compress :: "bool list \<Rightarrow> 'a list \<Rightarrow> 'a list" where
  "compress keep xs = map snd (filter fst (zip keep xs))"

fun index_compress :: "bool list \<Rightarrow> index \<Rightarrow> index" where
  "index_compress keep (DateIndex ds) = DateIndex (compress keep ds)"
| "index_compress keep (LabelIndex ls) = LabelIndex (compress keep ls)"
| "index_compress keep (IntIndex ns) = IntIndex (compress keep ns)"

text \<open>
  The array at the kept positions of the dimension \<open>time\<close>: the data, the coordinate
  \<open>time\<close> and every other coordinate along \<open>time\<close> are restricted.
\<close>

definition restrict :: "bool list \<Rightarrow> data_array \<Rightarrow> data_array" where
  "restrict keep da =
     da\<lparr>rows := map (\<lambda>(l, r). (l, compress keep r)) (rows da),
        coords := map (\<lambda>(n, k). (n, if n = ''time'' \<or> cdim k = ''time''
                                     then k\<lparr>cvals := index_compress keep (cvals k)\<rparr>
                                     else k)) (coords da)\<rparr>"

definition date_le :: "date \<Rightarrow> date \<Rightarrow> bool" where
  "date_le a b \<longleftrightarrow>
     year a < year b \<or>
     (year a = year b \<and> (month a < month b \<or> (month a = month b \<and> day a \<le> day b)))"

text \<open>The order of Python's strings: lexicographic in the code points.\<close>

fun str_le :: "string \<Rightarrow> string \<Rightarrow> bool" where
  "str_le [] t = True"
| "str_le (c # s) [] = False"
| "str_le (c # s) (d # t) =
     ((of_char c :: nat) < of_char d \<or> (c = d \<and> str_le s t))"

text \<open>
  The position where a slice that starts at the label \<open>x\<close> starts in an index
  (pandas' \<open>Index.slice_indexer\<close>). When the index holds the label, it is the
  position of the label, which must not occur again further on, behind other labels.
  When it does not, the index must be monotonic, and the position is found by binary
  search: in an increasing index it is the number of the entries below the label, in a
  decreasing one the number of the entries above it.
\<close>

definition positions :: "'a \<Rightarrow> 'a list \<Rightarrow> nat list" where
  "positions x xs = filter (\<lambda>i. xs ! i = x) [0..<length xs]"

definition slice_start :: "('a \<Rightarrow> 'a \<Rightarrow> bool) \<Rightarrow> 'a \<Rightarrow> 'a list \<Rightarrow> error + nat" where
  "slice_start le x xs =
     (case positions x xs of
        [] \<Rightarrow> if sorted_wrt le xs then Inr (length (filter (\<lambda>y. \<not> le x y) xs))
              else if sorted_wrt (\<lambda>a b. le b a) xs then Inr (length (filter (\<lambda>y. \<not> le y x) xs))
              else Inl (KeyError ''time'')
      | p # ps \<Rightarrow> if p # ps = [p..<p + length (p # ps)] then Inr p
                  else Inl (KeyError ''time''))"

definition from_position :: "nat \<Rightarrow> nat \<Rightarrow> bool list" where
  "from_position n len = map (\<lambda>i. n \<le> i) [0..<len]"

text \<open>
  \<open>da.sel(time=slice(ref, None))\<close>. The positions that the slice selects are found
  from the index of the coordinate \<open>time\<close>, which the array must have; then the
  array is restricted to them.

  On a date-valued index the string \<open>ref\<close> is parsed to the lower bound it denotes.
  The parser of date strings is pandas' and is a parameter \<open>parse\<close> here: it gives
  the first day of the period the string names (for a year \<open>"2016"\<close>, the first of
  January 2016), or raises. On an increasing index the slice is the time points on or
  after the bound. On any other date index pandas accepts the bound only if it is one
  of the time points, and xarray accepts the selection only if it is the whole axis;
  a \<open>KeyError\<close> otherwise.

  On an index of strings the slice starts at the position of \<open>ref\<close> in the order of
  strings. On an index of integers the string is not found, and a monotonic index
  cannot compare it with its entries.
\<close>

definition time_indexer ::
  "(string \<Rightarrow> error + date) \<Rightarrow> string \<Rightarrow> (string \<times> coord) list \<Rightarrow> error + bool list" where
  "time_indexer parse ref cs =
     (case map_of cs ''time'' of
        None \<Rightarrow> Inl (KeyError ''time'')
      | Some c \<Rightarrow>
          (case cvals c of
             DateIndex ts \<Rightarrow>
               bind (parse ref) (\<lambda>b.
                 let keep = map (date_le b) ts
                 in if sorted_wrt date_le ts \<or> (b \<in> set ts \<and> list_all id keep)
                    then Inr keep
                    else Inl (KeyError ''time''))
           | LabelIndex ls \<Rightarrow>
               bind (slice_start str_le ref ls) (\<lambda>n. Inr (from_position n (length ls)))
           | IntIndex ns \<Rightarrow>
               if sorted ns \<or> sorted (rev ns) then Inl (TypeError ''time'')
               else Inl (KeyError ''time'')))"

definition sel_time_from :: "(string \<Rightarrow> error + date) \<Rightarrow> string \<Rightarrow> data_array \<Rightarrow> error + data_array" where
  "sel_time_from parse ref da =
     bind (time_indexer parse ref (coords da)) (\<lambda>keep. Inr (restrict keep da))"

subsection \<open>The matplotlib axes\<close>

text \<open>
  An operand of \<open>fill_between\<close>: a scalar, a one-dimensional array or a
  two-dimensional one.
\<close>

datatype bound = Level real | Curve "num list" | Surface "num list list"

definition as_bound :: "selection \<Rightarrow> bound" where
  "as_bound s = (case s of Row r \<Rightarrow> Curve r | Rows rs \<Rightarrow> Surface rs)"

datatype artist =
    FillBetween "int list" bound bound string
  | Lines "int list" "(num \<times> num) list" string real

datatype locator = AutoLocator | NullLocator | MultipleLocator real | AutoMinorLocator nat

record axes =
  artists :: "artist list"
  x_major :: locator
  x_minor :: locator
  y_major :: locator
  y_minor :: locator
  xlabel :: string
  ylabel :: string
  ylim :: "(real \<times> real) option"

text \<open>\<open>plt.subplots(1, 1)\<close>: a new, empty axes.\<close>

definition subplots :: axes where
  "subplots = \<lparr>artists = [], x_major = AutoLocator, x_minor = NullLocator,
               y_major = AutoLocator, y_minor = NullLocator,
               xlabel = [], ylabel = [], ylim = None\<rparr>"

text \<open>
  \<open>ax.fill_between(x, y1, y2, color=c)\<close>: an operand of two dimensions is a
  \<open>ValueError\<close>, and so are operands that cannot be broadcast together: the lengths
  other than 1 must be the same. The artist is added to the axes.
\<close>

definition lengths :: "bound \<Rightarrow> nat list" where
  "lengths b = (case b of Level v \<Rightarrow> [] | Curve ys \<Rightarrow> [length ys] | Surface rs \<Rightarrow> [])"

definition flat :: "bound \<Rightarrow> bool" where
  "flat b = (case b of Level v \<Rightarrow> True | Curve ys \<Rightarrow> True | Surface rs \<Rightarrow> False)"

definition broadcastable :: "nat list \<Rightarrow> bool" where
  "broadcastable ns = list_all (\<lambda>n. n = 1 \<or> n = fold max ns 0) ns"

definition fill_between :: "int list \<Rightarrow> bound \<Rightarrow> bound \<Rightarrow> string \<Rightarrow> axes \<Rightarrow> error + axes" where
  "fill_between x lo hi c ax =
     (if flat lo \<and> flat hi \<and> broadcastable (length x # lengths lo @ lengths hi)
      then Inr (ax\<lparr>artists := artists ax @ [FillBetween x lo hi c]\<rparr>)
      else Inl (ValueError ''fill_between''))"

text \<open>
  \<open>np.array([y1, y2]).T\<close>: the two rows side by side, one pair for each position;
  rows of different lengths, or selections of two dimensions, make no such array.
\<close>

definition stack :: "selection \<Rightarrow> selection \<Rightarrow> error + (num \<times> num) list" where
  "stack y1 y2 =
     (case (y1, y2) of
        (Row a, Row b) \<Rightarrow> if length a = length b then Inr (zip a b)
                          else Inl (ValueError ''inhomogeneous shape'')
      | _ \<Rightarrow> Inl (ValueError ''inhomogeneous shape''))"

text \<open>
  \<open>ax.plot(x, ys, color=c, lw=w)\<close>: \<open>x\<close> and \<open>ys\<close> must have the same first
  dimension.
\<close>

definition plot :: "int list \<Rightarrow> (num \<times> num) list \<Rightarrow> string \<Rightarrow> real \<Rightarrow> axes \<Rightarrow> error + axes" where
  "plot x ys c w ax =
     (if length ys = length x
      then Inr (ax\<lparr>artists := artists ax @ [Lines x ys c w]\<rparr>)
      else Inl (ValueError ''plot''))"

subsection \<open>\<open>graph_fraction_of_total_variance\<close>\<close>

definition colors :: "(string \<times> string) list" where
  "colors = [(''variability'', ''#DC551A''), (''model'', ''#2B2B8B''),
             (''scenario'', ''#275620''), (''total'', ''k'')]"

definition names :: "(string \<times> string) list" where
  "names = [(''variability'', ''Internal variability'')]"

text \<open>\<open>d[k]\<close> on a dictionary.\<close>

definition getitem :: "(string \<times> 'a) list \<Rightarrow> string \<Rightarrow> error + 'a" where
  "getitem d k = (case map_of d k of None \<Rightarrow> Inl (KeyError k) | Some v \<Rightarrow> Inr v)"

text \<open>The step commented \<open>Compute fraction\<close>: \<open>variance / variance.sel(uncertainty="total") * 100\<close>.\<close>

definition compute_fraction :: "data_array \<Rightarrow> error + data_array" where
  "compute_fraction variance =
     bind (sel_uncertainty ''total'' variance) (\<lambda>tot.
     bind (divide_by variance tot) (\<lambda>q.
       Inr (times_scalar q 100)))"

text \<open>
  The steps that draw: the three areas, the black lines, the locators, the labels and
  the limits of the y axis.
\<close>

definition draw_areas :: "int list \<Rightarrow> selection \<Rightarrow> selection \<Rightarrow> axes \<Rightarrow> error + axes" where
  "draw_areas lead_time y1 y2 ax =
     bind (getitem colors ''model'') (\<lambda>c1.
     bind (fill_between lead_time (Level 0) (as_bound y1) c1 ax) (\<lambda>ax.
     bind (getitem colors ''scenario'') (\<lambda>c2.
     bind (fill_between lead_time (as_bound y1) (as_bound y2) c2 ax) (\<lambda>ax.
     bind (getitem colors ''variability'') (\<lambda>c3.
     fill_between lead_time (as_bound y2) (Level 100) c3 ax)))))"

definition decorate :: "string \<Rightarrow> axes \<Rightarrow> axes" where
  "decorate ref ax =
     ax\<lparr>x_major := MultipleLocator 20, x_minor := AutoMinorLocator 5,
        y_major := MultipleLocator 10, y_minor := AutoMinorLocator 2,
        xlabel := ''Lead time [years from '' @ ref @ '']'',
        ylabel := ''Fraction of total variance [%]'',
        ylim := Some (0, 100)\<rparr>"

text \<open>
  The function itself. \<open>ref\<close> defaults to \<open>"2000"\<close> and \<open>ax\<close> to \<open>None\<close> at the
  call; \<open>None\<close> makes the function open a new figure.
\<close>

definition graph_fraction_of_total_variance ::
  "(string \<Rightarrow> error + date) \<Rightarrow> (string \<Rightarrow> error + int) \<Rightarrow> data_array \<Rightarrow> string \<Rightarrow> axes option \<Rightarrow>
     error + axes" where
  "graph_fraction_of_total_variance parse to_int variance ref ax0 =
     (let ax = (case ax0 of None \<Rightarrow> subplots | Some a \<Rightarrow> a) in
      bind (compute_fraction variance) (\<lambda>da.
      bind (sel_time_from parse ref da) (\<lambda>da.
      bind (add_lead_time_coord to_int da ref) (\<lambda>(lead_time, da).
      bind (sel_uncertainty ''model'' da) (\<lambda>y1.
      bind (sel_uncertainty ''scenario'' da) (\<lambda>s.
      bind (add_selections s y1) (\<lambda>y2.
      bind (draw_areas lead_time y1 y2 ax) (\<lambda>ax.
      bind (stack y1 y2) (\<lambda>lines.
      bind (plot lead_time lines ''k'' 2 ax) (\<lambda>ax.
        Inr (decorate ref ax)))))))))))"

subsection \<open>The notebook's configuration\<close>

definition host :: string where
  "host = ''https://raw.githubusercontent.com/IPCC-WG1/Atlas/main/datasets-aggregated-regionally/data/CMIP6/CMIP6_tas_land/''"

definition pat :: string where
  "pat = ''CMIP6_{model}_{scenario}_{member}.csv''"

definition models :: "string list" where
  "models = [''ACCESS-CM2'', ''CMCC-CM2-SR5'', ''CanESM5'']"

definition members :: "string list" where
  "members = [''r1i1p1f1'', ''r1i1p1f1'', ''r1i1p1f1'']"

definition scenarios :: "string list" where
  "scenarios = [''ssp245'', ''ssp370'', ''ssp585'']"

definition ssp_col :: "(string \<times> string) list" where
  "ssp_col = [(''ssp126'', ''#1d3354''), (''ssp245'', ''#eadd3d''),
              (''ssp370'', ''#f21111''), (''ssp585'', ''#840b22'')]"

subsection \<open>\<open>str.format\<close> with keyword arguments\<close>

text \<open>
  The scanner reads the pattern from left to right. Outside a field, \<open>{{\<close> and
  \<open>}}\<close> are the literal braces, \<open>{\<close> opens a replacement field and a single
  \<open>}\<close> is an error; inside a field (\<open>Some name\<close>, the name read so far) the next
  \<open>}\<close> closes it and the keyword argument of that name is substituted. Fields are
  plain names, as in \<open>pat\<close>: no conversion, format specification, attribute or index.
\<close>

fun fmt :: "string option \<Rightarrow> string \<Rightarrow> (string \<times> string) list \<Rightarrow> error + string" where
  "fmt None [] kw = Inr []"
| "fmt (Some name) [] kw = Inl (ValueError ''expected } before end of string'')"
| "fmt None [c] kw =
     (if c = CHR ''{'' then Inl (ValueError ''Single { encountered in format string'')
      else if c = CHR ''}'' then Inl (ValueError ''Single } encountered in format string'')
      else Inr [c])"
| "fmt None (c # d # cs) kw =
     (if c = CHR ''{'' \<and> d = CHR ''{'' then bind (fmt None cs kw) (\<lambda>t. Inr (CHR ''{'' # t))
      else if c = CHR ''}'' \<and> d = CHR ''}'' then bind (fmt None cs kw) (\<lambda>t. Inr (CHR ''}'' # t))
      else if c = CHR ''{'' then fmt (Some []) (d # cs) kw
      else if c = CHR ''}'' then Inl (ValueError ''Single } encountered in format string'')
      else bind (fmt None (d # cs) kw) (\<lambda>t. Inr (c # t)))"
| "fmt (Some name) (c # cs) kw =
     (if c = CHR ''}''
      then bind (getitem kw name) (\<lambda>v. bind (fmt None cs kw) (\<lambda>t. Inr (v @ t)))
      else fmt (Some (name @ [c])) cs kw)"

definition str_format :: "string \<Rightarrow> (string \<times> string) list \<Rightarrow> error + string" where
  "str_format pattern kw = fmt None pattern kw"

subsection \<open>Runs of the notebook: the library calls made, and the outcome\<close>

datatype event =
    HttpGet string
  | ExpandDims string string
  | CombineByCoords
  | ResampleMean
  | PlotLine string
  | HawkinsSutton
  | PlotUncertainties
  | GraphFraction

text \<open>A run: the log of the calls made, in their order, and the outcome.\<close>

type_synonym 'a run = "event list \<times> (error + 'a)"

definition ret :: "'a \<Rightarrow> 'l list \<times> (error + 'a)" where
  "ret x = ([], Inr x)"

text \<open>A step that makes no logged call, and a logged call with its outcome.\<close>

definition lift :: "error + 'a \<Rightarrow> 'l list \<times> (error + 'a)" where
  "lift r = ([], r)"

definition call :: "event \<Rightarrow> error + 'a \<Rightarrow> 'a run" where
  "call ev r = ([ev], r)"

text \<open>Sequencing: an exception ends the run; nothing is called after it.\<close>

definition rbind ::
  "'l list \<times> (error + 'a) \<Rightarrow> ('a \<Rightarrow> 'l list \<times> (error + 'b)) \<Rightarrow> 'l list \<times> (error + 'b)" where
  "rbind m f = (case m of
                  (l, Inl e) \<Rightarrow> (l, Inl e)
                | (l, Inr x) \<Rightarrow> (case f x of (l', r) \<Rightarrow> (l @ l', r)))"

subsection \<open>Cell 2: the fetch loop\<close>

text \<open>
  The table \<open>pd.read_csv(url, index_col=0, comment="#", parse_dates=True)\<close> returns:
  the name and the values of its index column, and its other columns by name. A value
  is a finite number, or \<open>None\<close> for a missing number (NaN). What the remote host
  serves, and how pandas parses it, is the parameter \<open>read_csv\<close> of the loop: the
  outcome of reading each URL.
\<close>

record csv =
  index_name :: string
  index_values :: index
  columns :: "(string \<times> real option list) list"

text \<open>A column of the table, with the table's index: \<open>df["world"]\<close>.\<close>

record series =
  sdim :: string
  sindex :: index
  svalues :: "real option list"

definition getitem_column :: "csv \<Rightarrow> string \<Rightarrow> error + series" where
  "getitem_column df name =
     (case map_of (columns df) name of
        None \<Rightarrow> Inl (KeyError name)
      | Some vs \<Rightarrow> Inr \<lparr>sdim = index_name df, sindex = index_values df, svalues = vs\<rparr>)"

text \<open>
  The series as a DataArray tagged with its model and scenario:
  \<open>xr.DataArray(df).expand_dims(model=[model], scenario=[scenario])\<close> raises when the
  series' own dimension already has one of the two names, and \<open>.rename(date="time")\<close>
  raises unless that dimension is called \<open>date\<close>.
\<close>

record member_array =
  mdim :: string
  mindex :: index
  mvalues :: "real option list"
  mmodel :: string
  mscenario :: string

definition expand_dims :: "string \<Rightarrow> string \<Rightarrow> series \<Rightarrow> error + member_array" where
  "expand_dims model scenario s =
     (if sdim s = ''model'' \<or> sdim s = ''scenario'' then Inl (ValueError (sdim s))
      else Inr \<lparr>mdim = sdim s, mindex = sindex s, mvalues = svalues s,
                mmodel = model, mscenario = scenario\<rparr>)"

definition rename_date_time :: "member_array \<Rightarrow> error + member_array" where
  "rename_date_time da =
     (if mdim da = ''date'' then Inr (da\<lparr>mdim := ''time''\<rparr>) else Inl (ValueError ''date''))"

definition fetch_one ::
  "(string \<Rightarrow> error + csv) \<Rightarrow> string \<Rightarrow> string \<Rightarrow> string \<Rightarrow> member_array run" where
  "fetch_one read_csv model member scenario =
     rbind (lift (str_format pat [(''model'', model), (''scenario'', scenario), (''member'', member)])) (\<lambda>name.
       let url = host @ name in
       rbind (call (HttpGet url) (read_csv url)) (\<lambda>table.
       rbind (lift (getitem_column table ''world'')) (\<lambda>df.
       rbind (call (ExpandDims model scenario) (expand_dims model scenario df)) (\<lambda>da.
       lift (rename_date_time da)))))"

text \<open>The inner loop over the scenarios and the outer loop over \<open>zip(models, members)\<close>.\<close>

fun scenario_loop ::
  "(string \<Rightarrow> error + csv) \<Rightarrow> string \<Rightarrow> string \<Rightarrow> string list \<Rightarrow> member_array list \<Rightarrow>
     member_array list run" where
  "scenario_loop read_csv model member [] data = ret data"
| "scenario_loop read_csv model member (scenario # rest) data =
     rbind (fetch_one read_csv model member scenario) (\<lambda>da.
       scenario_loop read_csv model member rest (data @ [da]))"

fun model_loop ::
  "(string \<Rightarrow> error + csv) \<Rightarrow> (string \<times> string) list \<Rightarrow> string list \<Rightarrow> member_array list \<Rightarrow>
     member_array list run" where
  "model_loop read_csv [] scs data = ret data"
| "model_loop read_csv ((model, member) # rest) scs data =
     rbind (scenario_loop read_csv model member scs data) (\<lambda>data.
       model_loop read_csv rest scs data)"

definition fetch_loop :: "(string \<Rightarrow> error + csv) \<Rightarrow> member_array list run" where
  "fetch_loop read_csv = model_loop read_csv (zip models members) scenarios []"

subsection \<open>Cell 4: the ensemble and its annual means\<close>

text \<open>
  The ensemble has dimensions (model, scenario, time): the values along \<open>time\<close> of
  each pair of a model and a scenario. \<open>xr.combine_by_coords(data)["world"]\<close> is the
  parameter \<open>combine_by_coords\<close> of the notebook.
\<close>

record 'v ensemble =
  e_model :: "string list"
  e_scenario :: "string list"
  e_time :: index
  e_values :: "((string \<times> string) \<times> 'v list) list"

text \<open>The mean that skips the missing numbers; it is missing when nothing is left.\<close>

definition mean_skipna :: "real option list \<Rightarrow> real option" where
  "mean_skipna xs =
     (let ys = List.map_filter id xs
      in if ys = [] then None else Some (sum_list ys / real (length ys)))"

text \<open>The values that fall in the calendar year \<open>y\<close>.\<close>

definition in_year :: "date list \<Rightarrow> 'a list \<Rightarrow> int \<Rightarrow> 'a list" where
  "in_year ts vs y = map snd (filter (\<lambda>(t, v). year t = y) (zip ts vs))"

text \<open>
  \<open>ens_mon.resample(time="Y").mean()\<close>: the time axis must hold dates, at least one,
  in increasing order; there is one bin for each calendar year from the first to the
  last date, labelled with the last day of the year, and each value is the mean of the
  values of its year.
\<close>

definition bins :: "date list \<Rightarrow> int list" where
  "bins ts = (case ts of [] \<Rightarrow> [] | t # _ \<Rightarrow> [year t .. year (last ts)])"

definition resample_mean :: "real option ensemble \<Rightarrow> error + real option ensemble" where
  "resample_mean ens =
     (case e_time ens of
        DateIndex ts \<Rightarrow>
          if ts = [] then Inl (ValueError ''cannot resample an empty axis'')
          else if sorted_wrt date_le ts
          then Inr (ens\<lparr>e_time := DateIndex (map (\<lambda>y. \<lparr>year = y, month = 12, day = 31\<rparr>) (bins ts)),
                        e_values := map (\<lambda>(k, vs). (k, map (\<lambda>y. mean_skipna (in_year ts vs y)) (bins ts)))
                                      (e_values ens)\<rparr>)
          else Inl (ValueError ''index must be monotonic for resampling'')
      | LabelIndex ls \<Rightarrow> Inl (TypeError ''time'')
      | IntIndex ns \<Rightarrow> Inl (TypeError ''time''))"

text \<open>
  The figure of the cell: for each scenario and each model of the ensemble, the series
  is selected and drawn in the colour of its scenario. What
  \<open>.plot(color=c, alpha=0.8, lw=1)\<close> does with a series is the parameter
  \<open>plot_series\<close>: it draws, or raises.
\<close>

definition sel_member :: "'v ensemble \<Rightarrow> string \<Rightarrow> string \<Rightarrow> error + 'v list" where
  "sel_member ens scenario model =
     (case map_of (e_values ens) (model, scenario) of
        None \<Rightarrow> Inl (KeyError model)
      | Some vs \<Rightarrow> Inr vs)"

fun plot_models ::
  "('v list \<Rightarrow> string \<Rightarrow> error + unit) \<Rightarrow> 'v ensemble \<Rightarrow> string \<Rightarrow> string list \<Rightarrow> unit run" where
  "plot_models plot_series ens scenario [] = ret ()"
| "plot_models plot_series ens scenario (model # rest) =
     rbind (lift (sel_member ens scenario model)) (\<lambda>line.
     rbind (lift (getitem ssp_col scenario)) (\<lambda>c.
     rbind (call (PlotLine c) (plot_series line c)) (\<lambda>_.
       plot_models plot_series ens scenario rest)))"

fun plot_scenarios ::
  "('v list \<Rightarrow> string \<Rightarrow> error + unit) \<Rightarrow> 'v ensemble \<Rightarrow> string list \<Rightarrow> unit run" where
  "plot_scenarios plot_series ens [] = ret ()"
| "plot_scenarios plot_series ens (scenario # rest) =
     rbind (plot_models plot_series ens scenario (e_model ens)) (\<lambda>_.
       plot_scenarios plot_series ens rest)"

subsection \<open>The notebook\<close>

text \<open>
  The cells in their order. The partitioning routine \<open>xclim.ensembles.hawkins_sutton\<close>
  is a parameter: it takes the annual ensemble and the baseline period and
  returns the mean and the variances, or raises. So are the two plotting calls of
  xarray, \<open>plot_series\<close> in cell 4 and \<open>plot_hue\<close>, the figure
  \<open>uncertainties.plot(hue="uncertainty")\<close> of cell 6. The calls that open a figure or
  set its title take no data and are left out.
\<close>

definition notebook ::
  "(string \<Rightarrow> error + csv) \<Rightarrow> (member_array list \<Rightarrow> error + real option ensemble) \<Rightarrow>
   (real option ensemble \<Rightarrow> string \<times> string \<Rightarrow> error + (num list \<times> data_array)) \<Rightarrow>
   (real option list \<Rightarrow> string \<Rightarrow> error + unit) \<Rightarrow> (data_array \<Rightarrow> error + unit) \<Rightarrow>
   (string \<Rightarrow> error + date) \<Rightarrow> (string \<Rightarrow> error + int) \<Rightarrow> axes run" where
  "notebook read_csv combine_by_coords hawkins_sutton plot_series plot_hue parse to_int =
     rbind (fetch_loop read_csv) (\<lambda>data.
     rbind (call CombineByCoords (combine_by_coords data)) (\<lambda>ens_mon.
     rbind (call ResampleMean (resample_mean ens_mon)) (\<lambda>ens.
     rbind (plot_scenarios plot_series ens (e_scenario ens)) (\<lambda>_.
     rbind (call HawkinsSutton (hawkins_sutton ens (''2016'', ''2030''))) (\<lambda>(mean, uncertainties).
     rbind (call PlotUncertainties (plot_hue uncertainties)) (\<lambda>_.
       call GraphFraction
         (graph_fraction_of_total_variance parse to_int uncertainties ''2016'' None)))))))"

subsection \<open>The two functions over any library\<close>

text \<open>
  What the two functions do with the exceptions of the calls they make does not depend
  on what the calls compute. The functions are therefore written once more over an
  arbitrary library: a record of the operations they call, on values of any types,
  each of which returns a value or raises. Every call is logged with its name and its
  outcome: \<open>None\<close>, or the exception raised. The dictionary \<open>colors\<close> is the
  notebook's own and is read as above.
\<close>

datatype 's operand = Scalar real | Array 's

datatype ticks = XMajor | XMinor | YMajor | YMinor

record ('a, 's, 'c, 'y, 'i, 'l, 'm, 'x) library =
  lib_subplots :: "error + 'x"
  lib_sel :: "string \<Rightarrow> 'a \<Rightarrow> error + 's"
  lib_truediv :: "'a \<Rightarrow> 's \<Rightarrow> error + 'a"
  lib_mul :: "'a \<Rightarrow> real \<Rightarrow> error + 'a"
  lib_sel_time :: "string \<Rightarrow> 'a \<Rightarrow> error + 'a"
  lib_time :: "'a \<Rightarrow> error + 'c"
  lib_dt_year :: "'c \<Rightarrow> error + 'y"
  lib_int :: "string \<Rightarrow> error + 'i"
  lib_sub :: "'y \<Rightarrow> 'i \<Rightarrow> error + 'l"
  lib_setitem :: "string \<Rightarrow> 'l \<Rightarrow> 'a \<Rightarrow> error + 'a"
  lib_set_attr :: "string \<Rightarrow> string \<Rightarrow> string \<Rightarrow> 'a \<Rightarrow> error + 'a"
  lib_add :: "'s \<Rightarrow> 's \<Rightarrow> error + 's"
  lib_fill_between :: "'l \<Rightarrow> 's operand \<Rightarrow> 's operand \<Rightarrow> string \<Rightarrow> 'x \<Rightarrow> error + 'x"
  lib_stack :: "'s \<Rightarrow> 's \<Rightarrow> error + 'm"
  lib_plot :: "'l \<Rightarrow> 'm \<Rightarrow> string \<Rightarrow> real \<Rightarrow> 'x \<Rightarrow> error + 'x"
  lib_set_locator :: "ticks \<Rightarrow> locator \<Rightarrow> 'x \<Rightarrow> error + 'x"
  lib_set_xlabel :: "string \<Rightarrow> 'x \<Rightarrow> error + 'x"
  lib_set_ylabel :: "string \<Rightarrow> 'x \<Rightarrow> error + 'x"
  lib_set_ylim :: "real \<Rightarrow> real \<Rightarrow> 'x \<Rightarrow> error + 'x"

type_synonym 'a calls = "(string \<times> error option) list \<times> (error + 'a)"

definition logged :: "string \<Rightarrow> error + 'a \<Rightarrow> 'a calls" where
  "logged name r = ([(name, case r of Inl e \<Rightarrow> Some e | Inr x \<Rightarrow> None)], r)"

definition add_lead_time_coord_calls ::
  "('a, 's, 'c, 'y, 'i, 'l, 'm, 'x) library \<Rightarrow> 'a \<Rightarrow> string \<Rightarrow> ('l \<times> 'a) calls" where
  "add_lead_time_coord_calls lib da ref =
     rbind (logged ''time'' (lib_time lib da)) (\<lambda>t.
     rbind (logged ''dt.year'' (lib_dt_year lib t)) (\<lambda>years.
     rbind (logged ''int'' (lib_int lib ref)) (\<lambda>r.
     rbind (logged ''sub'' (lib_sub lib years r)) (\<lambda>lead_time.
     rbind (logged ''setitem'' (lib_setitem lib ''Lead time'' lead_time da)) (\<lambda>da.
     rbind (logged ''attrs'' (lib_set_attr lib ''Lead time'' ''units'' (''years from '' @ ref) da)) (\<lambda>da.
       ret (lead_time, da)))))))"

definition graph_fraction_of_total_variance_calls ::
  "('a, 's, 'c, 'y, 'i, 'l, 'm, 'x) library \<Rightarrow> 'a \<Rightarrow> string \<Rightarrow> 'x option \<Rightarrow> 'x calls" where
  "graph_fraction_of_total_variance_calls lib variance ref ax0 =
     rbind (case ax0 of None \<Rightarrow> logged ''subplots'' (lib_subplots lib) | Some a \<Rightarrow> ret a) (\<lambda>ax.
     rbind (logged ''sel'' (lib_sel lib ''total'' variance)) (\<lambda>tot.
     rbind (logged ''truediv'' (lib_truediv lib variance tot)) (\<lambda>q.
     rbind (logged ''mul'' (lib_mul lib q 100)) (\<lambda>da.
     rbind (logged ''sel'' (lib_sel_time lib ref da)) (\<lambda>da.
     rbind (add_lead_time_coord_calls lib da ref) (\<lambda>(lead_time, da).
     rbind (logged ''sel'' (lib_sel lib ''model'' da)) (\<lambda>y1.
     rbind (logged ''sel'' (lib_sel lib ''scenario'' da)) (\<lambda>s.
     rbind (logged ''add'' (lib_add lib s y1)) (\<lambda>y2.
     rbind (lift (getitem colors ''model'')) (\<lambda>c1.
     rbind (logged ''fill_between'' (lib_fill_between lib lead_time (Scalar 0) (Array y1) c1 ax)) (\<lambda>ax.
     rbind (lift (getitem colors ''scenario'')) (\<lambda>c2.
     rbind (logged ''fill_between'' (lib_fill_between lib lead_time (Array y1) (Array y2) c2 ax)) (\<lambda>ax.
     rbind (lift (getitem colors ''variability'')) (\<lambda>c3.
     rbind (logged ''fill_between'' (lib_fill_between lib lead_time (Array y2) (Scalar 100) c3 ax)) (\<lambda>ax.
     rbind (logged ''array'' (lib_stack lib y1 y2)) (\<lambda>lines.
     rbind (logged ''plot'' (lib_plot lib lead_time lines ''k'' 2 ax)) (\<lambda>ax.
     rbind (logged ''set_major_locator'' (lib_set_locator lib XMajor (MultipleLocator 20) ax)) (\<lambda>ax.
     rbind (logged ''set_minor_locator'' (lib_set_locator lib XMinor (AutoMinorLocator 5) ax)) (\<lambda>ax.
     rbind (logged ''set_major_locator'' (lib_set_locator lib YMajor (MultipleLocator 10) ax)) (\<lambda>ax.
     rbind (logged ''set_minor_locator'' (lib_set_locator lib YMinor (AutoMinorLocator 2) ax)) (\<lambda>ax.
     rbind (logged ''set_xlabel'' (lib_set_xlabel lib (''Lead time [years from '' @ ref @ '']'') ax)) (\<lambda>ax.
     rbind (logged ''set_ylabel'' (lib_set_ylabel lib ''Fraction of total variance [%]'' ax)) (\<lambda>ax.
     rbind (logged ''set_ylim'' (lib_set_ylim lib 0 100 ax)) (\<lambda>ax.
       ret ax))))))))))))))))))))))))"

text \<open>The names of the calls of a run in which no call raises.\<close>

definition add_lead_time_coord_names :: "string list" where
  "add_lead_time_coord_names = [''time'', ''dt.year'', ''int'', ''sub'', ''setitem'', ''attrs'']"

definition graph_names :: "'x option \<Rightarrow> string list" where
  "graph_names ax0 =
     (case ax0 of None \<Rightarrow> [''subplots''] | Some a \<Rightarrow> []) @
     [''sel'', ''truediv'', ''mul'', ''sel''] @ add_lead_time_coord_names @
     [''sel'', ''sel'', ''add'', ''fill_between'', ''fill_between'', ''fill_between'',
      ''array'', ''plot'', ''set_major_locator'', ''set_minor_locator'',
      ''set_major_locator'', ''set_minor_locator'', ''set_xlabel'', ''set_ylabel'', ''set_ylim'']"

text \<open>
  The library of the operations modelled above. The year array and the lead time carry
  the dimension they run along; an operand of \<open>fill_between\<close> is a bound; setting a
  locator, a label or the limits updates the axes.
\<close>

definition bound_of :: "selection operand \<Rightarrow> bound" where
  "bound_of p = (case p of Scalar v \<Rightarrow> Level v | Array s \<Rightarrow> as_bound s)"

definition set_locator :: "ticks \<Rightarrow> locator \<Rightarrow> axes \<Rightarrow> axes" where
  "set_locator which loc ax =
     (case which of XMajor \<Rightarrow> ax\<lparr>x_major := loc\<rparr> | XMinor \<Rightarrow> ax\<lparr>x_minor := loc\<rparr>
      | YMajor \<Rightarrow> ax\<lparr>y_major := loc\<rparr> | YMinor \<Rightarrow> ax\<lparr>y_minor := loc\<rparr>)"

definition modelled_library ::
  "(string \<Rightarrow> error + date) \<Rightarrow> (string \<Rightarrow> error + int) \<Rightarrow>
     (data_array, selection, coord, string \<times> int list, int, string \<times> int list,
      (num \<times> num) list, axes) library" where
  "modelled_library parse to_int =
     \<lparr>lib_subplots = Inr subplots,
      lib_sel = sel_uncertainty,
      lib_truediv = divide_by,
      lib_mul = (\<lambda>da k. Inr (times_scalar da k)),
      lib_sel_time = sel_time_from parse,
      lib_time = get_time,
      lib_dt_year = (\<lambda>t. map_sum id (Pair (cdim t)) (dt_year t)),
      lib_int = to_int,
      lib_sub = (\<lambda>years r. map_sum id (Pair (fst years)) (subtract64 (snd years) r)),
      lib_setitem = (\<lambda>name lead_time da. Inr (setitem name (fst lead_time) (snd lead_time) da)),
      lib_set_attr = set_coord_attr,
      lib_add = add_selections,
      lib_fill_between = (\<lambda>lead_time lo hi. fill_between (snd lead_time) (bound_of lo) (bound_of hi)),
      lib_stack = stack,
      lib_plot = (\<lambda>lead_time. plot (snd lead_time)),
      lib_set_locator = (\<lambda>which loc ax. Inr (set_locator which loc ax)),
      lib_set_xlabel = (\<lambda>s ax. Inr (ax\<lparr>xlabel := s\<rparr>)),
      lib_set_ylabel = (\<lambda>s ax. Inr (ax\<lparr>ylabel := s\<rparr>)),
      lib_set_ylim = (\<lambda>lo hi ax. Inr (ax\<lparr>ylim := Some (lo, hi)\<rparr>))\<rparr>"

subsection \<open>Notions used in the properties\<close>

text \<open>
  Modelled from the spec: the labels of the derived array that the partitioning routine
  \<open>hawkins_sutton\<close> returns. The routine is not among the sources; the spec gives the
  uncertainty kinds as model, scenario, variability and total.
\<close>

definition uncertainty_kinds :: "string list" where
  "uncertainty_kinds = [''variability'', ''model'', ''scenario'', ''total'']"

text \<open>
  Two arrays agree from the date \<open>b\<close> on: the same coordinates and attributes, the
  same labels, rows as long as the time axis, and the same values at every time point
  on or after \<open>b\<close>. The values at earlier time points are free.
\<close>

definition agree_from :: "date \<Rightarrow> data_array \<Rightarrow> data_array \<Rightarrow> bool" where
  "agree_from b v v' \<longleftrightarrow>
     coords v' = coords v \<and> attrs v' = attrs v \<and>
     (case map_of (coords v) ''time'' of
        None \<Rightarrow> False
      | Some c \<Rightarrow>
          (case cvals c of
             DateIndex ts \<Rightarrow>
               list_all2 (\<lambda>(l, r) (l', r'). l' = l \<and> length r = length ts \<and> length r' = length ts \<and>
                            (\<forall>j < length ts. date_le b (ts ! j) \<longrightarrow> r' ! j = r ! j))
                 (rows v) (rows v')
           | LabelIndex ls \<Rightarrow> False
           | IntIndex ns \<Rightarrow> False))"

text \<open>
  The normalised value, the quotient by the total, times 100; the array of the
  normalised values for a total row; and a function applied to the rows of a selection.
\<close>

definition percent :: "num \<Rightarrow> num \<Rightarrow> num" where
  "percent x t = fmul (fdiv x t) (Fin 100)"

definition normalised :: "data_array \<Rightarrow> num list \<Rightarrow> data_array" where
  "normalised v tot = v\<lparr>rows := map (\<lambda>(l, r). (l, map2 percent r tot)) (rows v), attrs := []\<rparr>"

definition map_selection :: "(num list \<Rightarrow> num list) \<Rightarrow> selection \<Rightarrow> selection" where
  "map_selection f s = (case s of Row r \<Rightarrow> Row (f r) | Rows rs \<Rightarrow> Rows (map f rs))"

text \<open>
  The URL as the spec describes it: the host, then the file pattern with the three names
  in place.
\<close>

definition url_shape :: "string \<Rightarrow> string \<Rightarrow> string \<Rightarrow> string" where
  "url_shape model scenario member =
     host @ ''CMIP6_'' @ model @ ''_'' @ scenario @ ''_'' @ member @ ''.csv''"

text \<open>
  The iterations of the two nested loops, in their order: each pair of
  \<open>zip(models, members)\<close> with each scenario.
\<close>

definition combos :: "(string \<times> string) list \<Rightarrow> string list \<Rightarrow> (string \<times> string \<times> string) list" where
  "combos mms scs = concat (map (\<lambda>(model, member). map (\<lambda>scenario. (model, member, scenario)) scs) mms)"

text \<open>The URLs requested in a run, in the order of the requests.\<close>

fun requests :: "event list \<Rightarrow> string list" where
  "requests [] = []"
| "requests (HttpGet u # es) = u # requests es"
| "requests (e # es) = requests es"

text \<open>A loop that collects the results of its body, as the two loops of cell 2 do together.\<close>

fun traverse :: "('a \<Rightarrow> 'b run) \<Rightarrow> 'a list \<Rightarrow> 'b list run" where
  "traverse f [] = ret []"
| "traverse f (x # xs) = rbind (f x) (\<lambda>y. rbind (traverse f xs) (\<lambda>ys. ret (y # ys)))"

text \<open>
  The part of the notebook that a call belongs to: the fetch loop, which fetches and
  tags one series after the other (1), the combination (2), the annual means and the
  figure drawn from them (3), the partitioning and the figure of the variances (4), the
  fraction of total variance (5).
\<close>

fun step :: "event \<Rightarrow> nat" where
  "step (HttpGet u) = 1"
| "step (ExpandDims model scenario) = 1"
| "step CombineByCoords = 2"
| "step ResampleMean = 3"
| "step (PlotLine c) = 3"
| "step HawkinsSutton = 4"
| "step PlotUncertainties = 4"
| "step GraphFraction = 5"

text \<open>
  The steps as the spec numbers them: fetching is step 1, and tagging belongs to step 2
  with the combination.
\<close>

fun claimed_step :: "event \<Rightarrow> nat" where
  "claimed_step (HttpGet u) = 1"
| "claimed_step (ExpandDims model scenario) = 2"
| "claimed_step CombineByCoords = 2"
| "claimed_step ResampleMean = 3"
| "claimed_step (PlotLine c) = 3"
| "claimed_step HawkinsSutton = 4"
| "claimed_step PlotUncertainties = 4"
| "claimed_step GraphFraction = 5"

text \<open>
  A run wraps its calls, whose names in a run without exception are \<open>script\<close>: the
  calls made are an initial part of them; no call but the last one raised; the run
  raises exactly when its last call raised, and raises that exception; and a run that
  returns has made all the calls.
\<close>

definition wraps :: "string list \<Rightarrow> 'a calls \<Rightarrow> bool" where
  "wraps script m \<longleftrightarrow>
     (case m of (trail, res) \<Rightarrow>
        prefix (map fst trail) script \<and>
        (\<forall>c \<in> set (butlast trail). snd c = None) \<and>
        (case res of
           Inl e \<Rightarrow> trail \<noteq> [] \<and> snd (last trail) = Some e
         | Inr x \<Rightarrow> map fst trail = script \<and> (\<forall>c \<in> set trail. snd c = None)))"

subsection \<open>Example inputs\<close>

text \<open>
  An instance of \<open>int\<close>, base ten, as CPython has it with its default limit of 4300
  digits: white space is stripped at both ends, a sign may come first, then digits,
  which single underscores may separate; anything else is a \<open>ValueError\<close>. The white
  space of \<open>int\<close> is the ASCII white space and, among the other code points below
  256, the next-line character and the no-break space.
\<close>

definition is_space :: "char \<Rightarrow> bool" where
  "is_space c \<longleftrightarrow> of_char c \<in> {9, 10, 11, 12, 13, 32, 133, 160 :: nat}"

definition is_digit :: "char \<Rightarrow> bool" where
  "is_digit c \<longleftrightarrow> 48 \<le> (of_char c :: nat) \<and> (of_char c :: nat) \<le> 57"

definition digit_val :: "char \<Rightarrow> int" where
  "digit_val c = int (of_char c) - 48"

definition strip :: "string \<Rightarrow> string" where
  "strip s = rev (dropWhile is_space (rev (dropWhile is_space s)))"

fun more_digits :: "int \<Rightarrow> string \<Rightarrow> int option" where
  "more_digits acc [] = Some acc"
| "more_digits acc [c] = (if is_digit c then Some (10 * acc + digit_val c) else None)"
| "more_digits acc (c # d # cs) =
     (if is_digit c then more_digits (10 * acc + digit_val c) (d # cs)
      else if c = CHR ''_'' \<and> is_digit d then more_digits acc (d # cs)
      else None)"

definition digits :: "string \<Rightarrow> int option" where
  "digits s = (case s of [] \<Rightarrow> None
               | c # cs \<Rightarrow> if is_digit c then more_digits (digit_val c) cs else None)"

definition signed_digits :: "string \<Rightarrow> int option" where
  "signed_digits s = (case s of [] \<Rightarrow> None
     | c # cs \<Rightarrow> if c = CHR ''-'' then map_option uminus (digits cs)
                else if c = CHR ''+'' then digits cs
                else digits s)"

definition py_int :: "string \<Rightarrow> error + int" where
  "py_int s = (if 4300 < length (filter is_digit s) then Inl (ValueError s)
               else case signed_digits (strip s) of
                      None \<Rightarrow> Inl (ValueError s)
                    | Some n \<Rightarrow> Inr n)"

text \<open>
  An instance of the date parser, for the strings of four digits: the year \<open>"2016"\<close>
  denotes the period that starts on the first of January 2016.
\<close>

definition year_start :: "string \<Rightarrow> error + date" where
  "year_start s = (if length s = 4 \<and> list_all is_digit s
                   then map_sum id (\<lambda>y. \<lparr>year = y, month = 1, day = 1\<rparr>) (py_int s)
                   else Inl (ValueError s))"

definition dec31 :: "int \<Rightarrow> date" where
  "dec31 y = \<lparr>year = y, month = 12, day = 31\<rparr>"

definition time0 :: coord where
  "time0 = \<lparr>cdim = ''time'', cvals = DateIndex [dec31 2015, dec31 2016, dec31 2017], cattrs = []\<rparr>"

text \<open>Variances of three years, labelled as the partitioning labels them.\<close>

definition uncertainties0 :: data_array where
  "uncertainties0 =
     \<lparr>rows = [(''variability'', [Fin 1, Fin 1, Fin 1]), (''model'', [Fin 1, Fin 2, Fin 3]),
              (''scenario'', [Fin 2, Fin 1, Fin 4]), (''total'', [Fin 4, Fin 4, Fin 8])],
      coords = [(''time'', time0)],
      attrs = [(''units'', ''K2'')]\<rparr>"

text \<open>The same variances from 2016 on, with other values in 2015.\<close>

definition uncertainties1 :: data_array where
  "uncertainties1 =
     \<lparr>rows = [(''variability'', [Fin 7, Fin 1, Fin 1]), (''model'', [Fin 5, Fin 2, Fin 3]),
              (''scenario'', [Fin 9, Fin 1, Fin 4]), (''total'', [Fin 21, Fin 4, Fin 8])],
      coords = [(''time'', time0)],
      attrs = [(''units'', ''K2'')]\<rparr>"

text \<open>Variances whose component \<open>variability\<close> is not the rest of the total.\<close>

definition uncertainties2 :: data_array where
  "uncertainties2 =
     \<lparr>rows = [(''variability'', [Fin 1, Fin 2, Fin 2]), (''model'', [Fin 1, Fin 2, Fin 3]),
              (''scenario'', [Fin 2, Fin 1, Fin 4]), (''total'', [Fin 4, Fin 4, Fin 8])],
      coords = [(''time'', time0)],
      attrs = [(''units'', ''K2'')]\<rparr>"

text \<open>
  Variances whose total is zero in 2016 and infinite in 2017, variances with the label
  \<open>total\<close> twice, and the variances of the first example without the coordinate
  \<open>time\<close>.
\<close>

definition uncertainties3 :: data_array where
  "uncertainties3 =
     \<lparr>rows = [(''model'', [Fin 1, Fin 2, Fin 3]), (''total'', [Fin 4, Fin 0, PosInf])],
      coords = [(''time'', time0)],
      attrs = []\<rparr>"

definition uncertainties4 :: data_array where
  "uncertainties4 =
     \<lparr>rows = [(''model'', [Fin 1, Fin 2, Fin 3]), (''total'', [Fin 4, Fin 4, Fin 8]),
              (''total'', [Fin 4, Fin 4, Fin 8])],
      coords = [(''time'', time0)],
      attrs = []\<rparr>"

definition uncertainties5 :: data_array where
  "uncertainties5 = uncertainties0\<lparr>coords := []\<rparr>"

text \<open>The axes that the function draws for these examples and the reference year 2016.\<close>

definition axes0 :: axes where
  "axes0 =
     \<lparr>artists =
        [FillBetween [0, 1] (Level 0) (Curve [Fin 50, Fin (75 / 2)]) ''#2B2B8B'',
         FillBetween [0, 1] (Curve [Fin 50, Fin (75 / 2)]) (Curve [Fin 75, Fin (175 / 2)]) ''#275620'',
         FillBetween [0, 1] (Curve [Fin 75, Fin (175 / 2)]) (Level 100) ''#DC551A'',
         Lines [0, 1] [(Fin 50, Fin 75), (Fin (75 / 2), Fin (175 / 2))] ''k'' 2],
      x_major = MultipleLocator 20, x_minor = AutoMinorLocator 5,
      y_major = MultipleLocator 10, y_minor = AutoMinorLocator 2,
      xlabel = ''Lead time [years from 2016]'',
      ylabel = ''Fraction of total variance [%]'',
      ylim = Some (0, 100)\<rparr>"

text \<open>
  A table of four months with the column \<open>world\<close>, a network that serves it at every
  URL, and one that fails at the second URL of the loop.
\<close>

definition table0 :: csv where
  "table0 =
     \<lparr>index_name = ''date'',
      index_values = DateIndex [\<lparr>year = 2015, month = 6, day = 1\<rparr>, \<lparr>year = 2015, month = 12, day = 1\<rparr>,
                                \<lparr>year = 2016, month = 6, day = 1\<rparr>, \<lparr>year = 2016, month = 12, day = 1\<rparr>],
      columns = [(''world'', [Some 1, Some 3, Some 5, None]),
                 (''MED'', [Some 2, Some 2, Some 2, Some 2])]\<rparr>"

definition net0 :: "string \<Rightarrow> error + csv" where
  "net0 url = Inr table0"

definition net1 :: "string \<Rightarrow> error + csv" where
  "net1 url = (if url = url_shape ''ACCESS-CM2'' ''ssp370'' ''r1i1p1f1''
               then Inl (IOError ''HTTP Error 404: Not Found'') else Inr table0)"

text \<open>The series that the loop makes of the table, for a model and a scenario.\<close>

definition member0 :: "string \<Rightarrow> string \<Rightarrow> member_array" where
  "member0 model scenario =
     \<lparr>mdim = ''time'', mindex = index_values table0, mvalues = [Some 1, Some 3, Some 5, None],
      mmodel = model, mscenario = scenario\<rparr>"

text \<open>
  An instance of \<open>combine_by_coords\<close> for series that share their time index, an
  instance of the outcome of the partitioning, and instances of the two plotting calls:
  the line plot raises on a series of one point.
\<close>

definition combine0 :: "member_array list \<Rightarrow> error + real option ensemble" where
  "combine0 data =
     (case data of
        [] \<Rightarrow> Inl (ValueError ''no data'')
      | d # _ \<Rightarrow> Inr \<lparr>e_model = remdups (map mmodel data), e_scenario = remdups (map mscenario data),
                       e_time = mindex d,
                       e_values = map (\<lambda>m. ((mmodel m, mscenario m), mvalues m)) data\<rparr>)"

definition hs0 :: "real option ensemble \<Rightarrow> string \<times> string \<Rightarrow> error + (num list \<times> data_array)" where
  "hs0 ens baseline = Inr ([], uncertainties0)"

definition plot_series0 :: "real option list \<Rightarrow> string \<Rightarrow> error + unit" where
  "plot_series0 line c = (if length line = 1 then Inl (TypeError ''plot'') else Inr ())"

definition plot_hue0 :: "data_array \<Rightarrow> error + unit" where
  "plot_hue0 da = Inr ()"

text \<open>The calls of the run on these instances, and the annual ensemble of the run.\<close>

definition trace0 :: "event list" where
  "trace0 =
     [HttpGet (url_shape ''ACCESS-CM2'' ''ssp245'' ''r1i1p1f1''), ExpandDims ''ACCESS-CM2'' ''ssp245'',
      HttpGet (url_shape ''ACCESS-CM2'' ''ssp370'' ''r1i1p1f1''), ExpandDims ''ACCESS-CM2'' ''ssp370'',
      HttpGet (url_shape ''ACCESS-CM2'' ''ssp585'' ''r1i1p1f1''), ExpandDims ''ACCESS-CM2'' ''ssp585'',
      HttpGet (url_shape ''CMCC-CM2-SR5'' ''ssp245'' ''r1i1p1f1''), ExpandDims ''CMCC-CM2-SR5'' ''ssp245'',
      HttpGet (url_shape ''CMCC-CM2-SR5'' ''ssp370'' ''r1i1p1f1''), ExpandDims ''CMCC-CM2-SR5'' ''ssp370'',
      HttpGet (url_shape ''CMCC-CM2-SR5'' ''ssp585'' ''r1i1p1f1''), ExpandDims ''CMCC-CM2-SR5'' ''ssp585'',
      HttpGet (url_shape ''CanESM5'' ''ssp245'' ''r1i1p1f1''), ExpandDims ''CanESM5'' ''ssp245'',
      HttpGet (url_shape ''CanESM5'' ''ssp370'' ''r1i1p1f1''), ExpandDims ''CanESM5'' ''ssp370'',
      HttpGet (url_shape ''CanESM5'' ''ssp585'' ''r1i1p1f1''), ExpandDims ''CanESM5'' ''ssp585'',
      CombineByCoords, ResampleMean,
      PlotLine ''#eadd3d'', PlotLine ''#eadd3d'', PlotLine ''#eadd3d'',
      PlotLine ''#f21111'', PlotLine ''#f21111'', PlotLine ''#f21111'',
      PlotLine ''#840b22'', PlotLine ''#840b22'', PlotLine ''#840b22'',
      HawkinsSutton, PlotUncertainties, GraphFraction]"

definition annual0 :: "real option ensemble" where
  "annual0 =
     \<lparr>e_model = models, e_scenario = scenarios,
      e_time = DateIndex [dec31 2015, dec31 2016],
      e_values = map (\<lambda>(model, member, scenario). ((model, scenario), [Some 2, Some 5]))
                   (combos (zip models members) scenarios)\<rparr>"

section \<open>Properties\<close>

subsection \<open>Evaluation of the examples\<close>

lemma py_int_2016: "py_int ''2016'' = Inr 2016"
  by (simp add: py_int_def strip_def signed_digits_def digits_def is_space_def is_digit_def
      digit_val_def)

lemma year_start_2016: "year_start ''2016'' = Inr \<lparr>year = 2016, month = 1, day = 1\<rparr>"
  by (simp add: year_start_def py_int_2016) (simp add: is_digit_def)

subsection \<open>Lists and dictionaries\<close>

lemma bind_sum_simps [simp]: "bind (Inl e) f = Inl e" "bind (Inr x) f = f x"
  by (simp_all add: bind_def)

lemma bind_sum_assoc: "bind (bind m f) g = bind m (\<lambda>x. bind (f x) g)"
  by (cases m) simp_all

lemma compress_Nil [simp]: "compress [] xs = []" "compress ks [] = []"
  by (simp_all add: compress_def)

lemma compress_Cons [simp]:
  "compress (k # ks) (x # xs) = (if k then x # compress ks xs else compress ks xs)"
  by (simp add: compress_def)

lemma compress_map: "compress ks (map f xs) = map f (compress ks xs)"
proof (induction ks arbitrary: xs)
  case Nil
  then show ?case by simp
next
  case (Cons k ks)
  then show ?case by (cases xs) auto
qed

lemma compress_map2:
  "compress ks (map2 f xs ys) = map2 f (compress ks xs) (compress ks ys)"
proof (induction ks arbitrary: xs ys)
  case Nil
  then show ?case by simp
next
  case (Cons k ks)
  show ?case
  proof (cases xs)
    case Nil
    then show ?thesis by simp
  next
    case xs: (Cons x xs')
    show ?thesis
    proof (cases ys)
      case Nil
      then show ?thesis by simp
    next
      case ys: (Cons y ys')
      with xs Cons.IH [of xs' ys'] show ?thesis by simp
    qed
  qed
qed

lemma compress_filter: "compress (map P xs) xs = filter P xs"
  by (induction xs) simp_all

lemma map_rows_comp:
  "map (\<lambda>(l, r). (l, f r)) (map (\<lambda>(l, r). (l, g r)) rs) = map (\<lambda>(l, r). (l, f (g r))) rs"
  by (induction rs) auto

lemma labels_map_rows: "map fst (map (\<lambda>(l, r). (l, f r)) rs) = map fst rs"
  by (induction rs) auto

lemma matching_map_rows:
  "matching label (map (\<lambda>(l, r). (l, f r)) rs) = map f (matching label rs)"
  by (induction rs) (auto simp add: matching_def)

lemma matching_labels: "length (matching label rs) = count_list (map fst rs) label"
  by (induction rs) (auto simp add: matching_def)

lemma matching_in_labels: "label \<in> fst ` set rs \<Longrightarrow> matching label rs \<noteq> []"
  by (induction rs) (auto simp add: matching_def)

subsection \<open>Selections by label\<close>

lemma sel_uncertainty_map_rows:
  assumes "rows da' = map (\<lambda>(l, r). (l, f r)) (rows da)"
  shows "sel_uncertainty label da' = map_sum id (map_selection f) (sel_uncertainty label da)"
  by (simp add: sel_uncertainty_def assms matching_map_rows map_selection_def
      split: list.splits)

lemma sel_uncertainty_Row_map_rows:
  assumes "rows da' = map (\<lambda>(l, r). (l, f r)) (rows da)"
    and "sel_uncertainty label da' = Inr (Row y)"
  obtains r where "sel_uncertainty label da = Inr (Row r)" "y = f r"
proof (cases "sel_uncertainty label da")
  case (Inl e)
  with assms show ?thesis
    by (simp add: sel_uncertainty_map_rows [OF assms(1)])
next
  case (Inr s)
  with assms that show ?thesis
    by (cases s) (simp_all add: sel_uncertainty_map_rows [OF assms(1)] map_selection_def)
qed

lemma sel_uncertainty_succeeds:
  "label \<in> fst ` set (rows da) \<Longrightarrow> \<exists>s. sel_uncertainty label da = Inr s"
  using matching_in_labels [of label "rows da"]
  by (simp add: sel_uncertainty_def split: list.splits)

lemma sel_uncertainty_labels:
  assumes "map fst (rows da') = map fst (rows da)"
  shows "(\<exists>e. sel_uncertainty label da' = Inl e) = (\<exists>e. sel_uncertainty label da = Inl e)"
    and "(\<exists>r. sel_uncertainty label da' = Inr (Row r)) = (\<exists>r. sel_uncertainty label da = Inr (Row r))"
    and "(\<exists>rs. sel_uncertainty label da' = Inr (Rows rs)) = (\<exists>rs. sel_uncertainty label da = Inr (Rows rs))"
proof -
  have "length (matching label (rows da')) = length (matching label (rows da))"
    by (simp add: matching_labels assms)
  then show "(\<exists>e. sel_uncertainty label da' = Inl e) = (\<exists>e. sel_uncertainty label da = Inl e)"
    and "(\<exists>r. sel_uncertainty label da' = Inr (Row r)) = (\<exists>r. sel_uncertainty label da = Inr (Row r))"
    and "(\<exists>rs. sel_uncertainty label da' = Inr (Rows rs)) = (\<exists>rs. sel_uncertainty label da = Inr (Rows rs))"
    by (auto simp add: sel_uncertainty_def split: list.splits)
qed

subsection \<open>The fraction of total variance\<close>

lemma percent_rows:
  "(\<lambda>(l, r). (l, map (\<lambda>x. fmul x (Fin 100)) r)) \<circ> (\<lambda>(l, r). (l, map2 fdiv r t)) =
   (\<lambda>(l, r). (l, map2 percent r t))"
  by (auto simp add: fun_eq_iff percent_def)

lemma compute_fraction_cases:
  "compute_fraction v =
     (case sel_uncertainty ''total'' v of
        Inl e \<Rightarrow> Inl e
      | Inr (Row tot) \<Rightarrow> Inr (normalised v tot)
      | Inr (Rows ts) \<Rightarrow> Inl (ValueError ''cannot align: the index has duplicate values''))"
proof -
  have "times_scalar (v\<lparr>rows := map (\<lambda>(l, r). (l, map2 fdiv r tot)) (rows v), attrs := []\<rparr>) 100 =
        normalised v tot" for tot
    by (simp add: times_scalar_def normalised_def percent_rows)
  then show ?thesis
    by (simp add: compute_fraction_def divide_by_def split: sum.splits selection.splits)
qed

lemma compute_fraction_Row:
  "sel_uncertainty ''total'' v = Inr (Row tot) \<Longrightarrow> compute_fraction v = Inr (normalised v tot)"
  by (simp add: compute_fraction_cases)

lemma compute_fraction_Inr:
  assumes "compute_fraction v = Inr f"
  obtains tot where "sel_uncertainty ''total'' v = Inr (Row tot)" "f = normalised v tot"
  using assms
  by (auto simp add: compute_fraction_cases split: sum.splits selection.splits)

lemma rows_normalised:
  "rows (normalised v tot) = map (\<lambda>(l, r). (l, map2 percent r tot)) (rows v)"
  "coords (normalised v tot) = coords v"
  by (simp_all add: normalised_def)

lemma percent_total:
  "percent (Fin x) (Fin x) = (if x = 0 then NaN else Fin 100)"
  "percent NegZero NegZero = NaN" "percent PosInf PosInf = NaN" "percent NegInf NegInf = NaN"
  "percent NaN NaN = NaN"
  by (simp_all add: percent_def fdiv_def fmul_def is_zero_def is_inf_def negative_def
      finite_value_def zero_of_def inf_of_def)

lemma fraction0:
  "compute_fraction uncertainties0 =
     Inr \<lparr>rows = [(''variability'', [Fin 25, Fin 25, Fin (25 / 2)]),
                  (''model'', [Fin 25, Fin 50, Fin (75 / 2)]),
                  (''scenario'', [Fin 50, Fin 25, Fin 50]),
                  (''total'', [Fin 100, Fin 100, Fin 100])],
          coords = [(''time'', time0)], attrs = []\<rparr>"
  by (simp add: compute_fraction_cases sel_uncertainty_def matching_def uncertainties0_def
      normalised_def percent_def fdiv_def fmul_def is_zero_def is_inf_def negative_def
      finite_value_def zero_of_def inf_of_def)

lemma percent_finite:
  "x \<noteq> 0 \<Longrightarrow> t \<noteq> 0 \<Longrightarrow> percent (Fin x) (Fin t) = Fin (x / t * 100)"
  by (simp add: percent_def fdiv_def fmul_def is_zero_def is_inf_def finite_value_def)




subsection \<open>The lead time\<close>

lemma wrap64_int64: "int64 n \<Longrightarrow> wrap64 n = n"
  by (simp add: int64_def wrap64_def)

lemma add_lead_time_coord_eq:
  assumes "map_of (coords da) ''time'' = Some t" and "cvals t = DateIndex ds"
    and "to_int ref = Inr r"
  shows "add_lead_time_coord to_int da ref =
     (if int64 r
      then Inr (map (\<lambda>d. wrap64 (year d - r)) ds,
                da\<lparr>coords := AList.update ''Lead time''
                     \<lparr>cdim = cdim t, cvals = IntIndex (map (\<lambda>d. wrap64 (year d - r)) ds),
                      cattrs = [(''units'', ''years from '' @ ref)]\<rparr> (coords da)\<rparr>)
      else Inl (OverflowError ''Python integer out of bounds for int64''))"
  using assms
  by (simp add: add_lead_time_coord_def get_time_def dt_year_def subtract64_def setitem_def
      set_coord_attr_def update_conv' Let_def comp_def)

lemma time0_uncertainties0:
  "map_of (coords uncertainties0) ''time'' = Some time0"
  "cvals time0 = DateIndex [dec31 2015, dec31 2016, dec31 2017]"
  by (simp_all add: uncertainties0_def time0_def)

text \<open>
  C2, as the code has it. The years are an int64 array and the subtraction is that of
  int64. For every array with a date-valued time coordinate and every reference string
  for which \<open>int\<close> returns an integer \<open>r\<close> within the bounds of int64, the call
  succeeds and returns, for each time point in order, the calendar year minus \<open>r\<close>,
  wrapped around to int64; that is the calendar year minus \<open>r\<close> whenever this
  difference is itself within the bounds. For an integer out of the bounds the call
  raises \<open>OverflowError\<close>.
\<close>

theorem add_lead_time_coord_years:
  assumes "map_of (coords da) ''time'' = Some t" and "cvals t = DateIndex ds"
    and "to_int ref = Inr r"
  shows "(int64 r \<longrightarrow>
            (\<exists>da'. add_lead_time_coord to_int da ref =
                     Inr (map (\<lambda>d. wrap64 (year d - r)) ds, da'))) \<and>
         (int64 r \<longrightarrow> (\<forall>d \<in> set ds. int64 (year d - r)) \<longrightarrow>
            (\<exists>da'. add_lead_time_coord to_int da ref = Inr (map (\<lambda>d. year d - r) ds, da'))) \<and>
         (\<not> int64 r \<longrightarrow>
            add_lead_time_coord to_int da ref =
              Inl (OverflowError ''Python integer out of bounds for int64''))"
proof -
  have "map (\<lambda>d. wrap64 (year d - r)) ds = map (\<lambda>d. year d - r) ds"
    if "\<forall>d \<in> set ds. int64 (year d - r)"
    using that by (simp add: wrap64_int64)
  then show ?thesis
    by (auto simp add: add_lead_time_coord_eq [of da t ds to_int ref r] assms)
qed

theorem add_lead_time_coord_years_witness:
  "py_int ''2016'' = Inr 2016 \<and> int64 2016 \<and>
   map_sum id fst (add_lead_time_coord py_int uncertainties0 ''2016'') = Inr [- 1, 0, 1]"
proof -
  have b: "int64 2016"
    by (simp add: int64_def)
  have "\<forall>d \<in> set [dec31 2015, dec31 2016, dec31 2017]. int64 (year d - 2016)"
    by (simp add: int64_def dec31_def)
  with add_lead_time_coord_years [of uncertainties0 time0 "[dec31 2015, dec31 2016, dec31 2017]"
      py_int "''2016''" 2016] time0_uncertainties0 py_int_2016 b
  obtain da' where "add_lead_time_coord py_int uncertainties0 ''2016'' =
      Inr (map (\<lambda>d. year d - 2016) [dec31 2015, dec31 2016, dec31 2017], da')"
    by blast
  then show ?thesis
    by (simp add: py_int_2016 dec31_def b)
qed

text \<open>
  C2, as the claim states it, fails for reference strings that \<open>int\<close> parses to an
  integer far from the years. For \<open>"100000000000000000000"\<close> the call raises
  \<open>OverflowError\<close> and returns no lead time. For \<open>"-9223372036854775807"\<close> the
  subtraction wraps around: the lead time of the year 2015 is
  \<open>-9223372036854773794\<close>, not \<open>2015 + 9223372036854775807\<close>.
\<close>

theorem lead_time_overflows:
  "py_int ''100000000000000000000'' = Inr 100000000000000000000 \<and>
   add_lead_time_coord py_int uncertainties0 ''100000000000000000000'' =
     Inl (OverflowError ''Python integer out of bounds for int64'') \<and>
   py_int ''-9223372036854775807'' = Inr (- 9223372036854775807) \<and>
   map_sum id fst (add_lead_time_coord py_int uncertainties0 ''-9223372036854775807'') =
     Inr [- 9223372036854773794, - 9223372036854773793, - 9223372036854773792] \<and>
   year (dec31 2015) - (- 9223372036854775807) \<noteq> - 9223372036854773794"
proof -
  have 1: "py_int ''100000000000000000000'' = Inr 100000000000000000000"
    by (simp add: py_int_def strip_def signed_digits_def digits_def is_space_def is_digit_def
        digit_val_def)
  have 2: "py_int ''-9223372036854775807'' = Inr (- 9223372036854775807)"
    by (simp add: py_int_def strip_def signed_digits_def digits_def is_space_def is_digit_def
        digit_val_def)
  have 3: "add_lead_time_coord py_int uncertainties0 ''100000000000000000000'' =
     Inl (OverflowError ''Python integer out of bounds for int64'')"
    using add_lead_time_coord_eq [of uncertainties0 time0 "[dec31 2015, dec31 2016, dec31 2017]"
        py_int "''100000000000000000000''" 100000000000000000000] time0_uncertainties0 1
    by (simp add: int64_def)
  have 4: "map_sum id fst (add_lead_time_coord py_int uncertainties0 ''-9223372036854775807'') =
     Inr [- 9223372036854773794, - 9223372036854773793, - 9223372036854773792]"
    using add_lead_time_coord_eq [of uncertainties0 time0 "[dec31 2015, dec31 2016, dec31 2017]"
        py_int "''-9223372036854775807''" "- 9223372036854775807"] time0_uncertainties0 2
    by (simp add: int64_def wrap64_def dec31_def)
  show ?thesis
    using 1 2 3 4 by (simp add: dec31_def)
qed

text \<open>
  C8. Whenever the call returns, the array after the call has the data values and the
  attributes it had, the coordinate \<open>Lead time\<close> (set by the call, running along the
  dimension of \<open>time\<close>) whose values are the returned lead time and whose attribute
  \<open>units\<close> is \<open>years from\<close> followed by \<open>ref\<close>, and under every other name
  the coordinate it had. What is returned is the lead time, not the array. The call
  returns for every array with a date-valued time coordinate and every reference string
  for which \<open>int\<close> returns an integer within the bounds of int64.
\<close>

theorem add_lead_time_coord_frame:
  "(add_lead_time_coord to_int da ref = Inr (lead_time, da') \<longrightarrow>
      rows da' = rows da \<and> attrs da' = attrs da \<and>
      (\<exists>t. map_of (coords da) ''time'' = Some t \<and>
           map_of (coords da') =
             (map_of (coords da))(''Lead time'' \<mapsto>
                \<lparr>cdim = cdim t, cvals = IntIndex lead_time,
                 cattrs = [(''units'', ''years from '' @ ref)]\<rparr>)) \<and>
      (\<forall>n. n \<noteq> ''Lead time'' \<longrightarrow> map_of (coords da') n = map_of (coords da) n)) \<and>
   (map_of (coords da) ''time'' = Some t \<and> cvals t = DateIndex ds \<and> to_int ref = Inr r \<and>
    int64 r \<longrightarrow>
      (\<exists>lead_time da'. add_lead_time_coord to_int da ref = Inr (lead_time, da')))"
proof (intro conjI impI)
  assume a: "add_lead_time_coord to_int da ref = Inr (lead_time, da')"
  then obtain t ds r where t: "map_of (coords da) ''time'' = Some t" "cvals t = DateIndex ds"
    "to_int ref = Inr r"
    by (auto simp add: add_lead_time_coord_def bind_def get_time_def dt_year_def
        split: option.splits index.splits sum.splits)
  from a have r: "int64 r" and lt: "lead_time = map (\<lambda>d. wrap64 (year d - r)) ds"
    and da': "da' = da\<lparr>coords := AList.update ''Lead time''
                     \<lparr>cdim = cdim t, cvals = IntIndex (map (\<lambda>d. wrap64 (year d - r)) ds),
                      cattrs = [(''units'', ''years from '' @ ref)]\<rparr> (coords da)\<rparr>"
    by (auto simp add: add_lead_time_coord_eq [of da t ds to_int ref r] t split: if_splits)
  show "rows da' = rows da" "attrs da' = attrs da"
    by (simp_all add: da')
  show "\<exists>t. map_of (coords da) ''time'' = Some t \<and>
           map_of (coords da') =
             (map_of (coords da))(''Lead time'' \<mapsto>
                \<lparr>cdim = cdim t, cvals = IntIndex lead_time,
                 cattrs = [(''units'', ''years from '' @ ref)]\<rparr>)"
    using t(1) by (simp add: da' lt update_conv')
  show "\<forall>n. n \<noteq> ''Lead time'' \<longrightarrow> map_of (coords da') n = map_of (coords da) n"
    by (simp add: da' update_conv')
next
  assume "map_of (coords da) ''time'' = Some t \<and> cvals t = DateIndex ds \<and> to_int ref = Inr r \<and>
    int64 r"
  then show "\<exists>lead_time da'. add_lead_time_coord to_int da ref = Inr (lead_time, da')"
    by (simp add: add_lead_time_coord_eq [of da t ds to_int ref r])
qed

theorem add_lead_time_coord_frame_witness:
  "py_int ''2016'' = Inr 2016 \<and> int64 2016 \<and>
   add_lead_time_coord py_int uncertainties0 ''2016'' =
     Inr ([- 1, 0, 1],
          uncertainties0\<lparr>coords :=
            [(''time'', time0),
             (''Lead time'', \<lparr>cdim = ''time'', cvals = IntIndex [- 1, 0, 1],
                              cattrs = [(''units'', ''years from 2016'')]\<rparr>)]\<rparr>) \<and>
   map_of (coords uncertainties0) ''Lead time'' = None"
proof -
  let ?U = "uncertainties0\<lparr>coords :=
            [(''time'', time0),
             (''Lead time'', \<lparr>cdim = ''time'', cvals = IntIndex [- 1, 0, 1],
                              cattrs = [(''units'', ''years from 2016'')]\<rparr>)]\<rparr>"
  have b: "int64 2016"
    by (simp add: int64_def)
  have e: "add_lead_time_coord py_int uncertainties0 ''2016'' = Inr ([- 1, 0, 1], ?U)"
    using add_lead_time_coord_eq [of uncertainties0 time0 "[dec31 2015, dec31 2016, dec31 2017]"
        py_int "''2016''" 2016] time0_uncertainties0 py_int_2016
    by (simp add: int64_def wrap64_def dec31_def) (simp add: uncertainties0_def time0_def)
  from add_lead_time_coord_frame [THEN conjunct1, of py_int uncertainties0 "''2016''" "[- 1, 0, 1]" ?U] e
  have "map_of (coords ?U) ''time'' = map_of (coords uncertainties0) ''time''"
    by (simp add: time0_uncertainties0)
  with e b show ?thesis
    by (simp add: py_int_2016) (simp add: uncertainties0_def)
qed

subsection \<open>Slicing and normalising commute\<close>

lemma restrict_rows:
  "rows (restrict keep da) = map (\<lambda>(l, r). (l, compress keep r)) (rows da)"
  "attrs (restrict keep da) = attrs da"
  by (simp_all add: restrict_def)

lemma map_of_map_coords:
  "map_of (map (\<lambda>(n, k). (n, g n k)) cs) x = map_option (g x) (map_of cs x)"
  by (induction cs) auto

lemma restrict_time:
  "map_of (coords (restrict keep da)) ''time'' =
     map_option (\<lambda>c. c\<lparr>cvals := index_compress keep (cvals c)\<rparr>) (map_of (coords da) ''time'')"
proof -
  have "coords (restrict keep da) =
      map (\<lambda>(n, k). (n, (\<lambda>n k. if n = ''time'' \<or> cdim k = ''time''
                                 then k\<lparr>cvals := index_compress keep (cvals k)\<rparr> else k) n k))
        (coords da)"
    by (simp add: restrict_def)
  then show ?thesis
    by (simp only: map_of_map_coords) simp
qed

lemma restrict_normalised:
  "restrict keep (normalised v tot) = normalised (restrict keep v) (compress keep tot)"
proof (rule data_array.equality)
  show "rows (restrict keep (normalised v tot)) = rows (normalised (restrict keep v) (compress keep tot))"
    by (simp only: restrict_rows rows_normalised map_rows_comp compress_map2)
qed (simp_all add: restrict_def normalised_def)

lemma sel_time_from_Inr:
  assumes "sel_time_from parse ref v = Inr w"
  obtains keep where "time_indexer parse ref (coords v) = Inr keep" "w = restrict keep v"
  using assms
  by (cases "time_indexer parse ref (coords v)") (auto simp add: sel_time_from_def)

lemma time_indexer_dates:
  assumes "map_of cs ''time'' = Some c" and "cvals c = DateIndex ts"
    and "time_indexer parse ref cs = Inr keep"
  obtains b where "parse ref = Inr b" "keep = map (date_le b) ts"
  using assms
  by (cases "parse ref") (auto simp add: time_indexer_def Let_def split: if_splits)

lemma index_compress_dates:
  assumes "index_compress keep i = DateIndex ds"
  obtains ts where "i = DateIndex ts" "ds = compress keep ts"
  using assms by (cases i) simp_all

lemma matching_all2:
  assumes "list_all2 (\<lambda>(l, r) (l', r'). l' = l \<and> P r r') rs rs'"
  shows "list_all2 P (matching x rs) (matching x rs')"
  using assms
  by (induction rs rs' rule: list_all2_induct) (auto simp add: matching_def)

lemma graph_unfold:
  "graph_fraction_of_total_variance parse to_int u ref ax =
     bind (bind (compute_fraction u) (sel_time_from parse ref)) (\<lambda>da.
       bind (add_lead_time_coord to_int da ref) (\<lambda>(lead_time, da).
       bind (sel_uncertainty ''model'' da) (\<lambda>y1.
       bind (sel_uncertainty ''scenario'' da) (\<lambda>s.
       bind (add_selections s y1) (\<lambda>y2.
       bind (draw_areas lead_time y1 y2 (case ax of None \<Rightarrow> subplots | Some a \<Rightarrow> a)) (\<lambda>ax.
       bind (stack y1 y2) (\<lambda>lines.
       bind (plot lead_time lines ''k'' 2 ax) (\<lambda>ax.
         Inr (decorate ref ax)))))))))"
  by (simp add: graph_fraction_of_total_variance_def bind_sum_assoc Let_def)

lemma compress_agree:
  assumes "length ts = length r" "length r = length r'"
    and "\<forall>j < length ts. P (ts ! j) \<longrightarrow> r' ! j = r ! j"
  shows "compress (map P ts) r' = compress (map P ts) r"
  using assms
proof (induction ts r r' rule: list_induct3)
  case Nil
  then show ?case by simp
next
  case (Cons t ts x r y r')
  have "\<forall>j < length ts. P (ts ! j) \<longrightarrow> r' ! j = r ! j"
    using Cons.prems by auto
  moreover have "P t \<Longrightarrow> y = x"
    using Cons.prems by auto
  ultimately show ?case
    using Cons.IH by simp
qed

lemma rows_agree:
  assumes "list_all2 (\<lambda>(l, r) (l', r'). l' = l \<and> length r = length ts \<and> length r' = length ts \<and>
                            (\<forall>j < length ts. P (ts ! j) \<longrightarrow> r' ! j = r ! j)) rs rs'"
  shows "map (\<lambda>(l, r). (l, compress (map P ts) r)) rs' =
         map (\<lambda>(l, r). (l, compress (map P ts) r)) rs"
  using assms
  by (induction rs rs' rule: list_all2_induct) (auto simp add: compress_agree)

text \<open>
  Two arrays that agree from the bound on are normalised and sliced to the same array,
  or both raise the same exception.
\<close>

lemma agree_from_slice:
  assumes "agree_from b v v'" and "parse ref = Inr b"
  shows "bind (compute_fraction v) (sel_time_from parse ref) =
         bind (compute_fraction v') (sel_time_from parse ref)"
proof -
  from assms(1) obtain c ts where c: "map_of (coords v) ''time'' = Some c" "cvals c = DateIndex ts"
    and cs: "coords v' = coords v" and as: "attrs v' = attrs v"
    and rs: "list_all2 (\<lambda>(l, r) (l', r'). l' = l \<and> length r = length ts \<and> length r' = length ts \<and>
                            (\<forall>j < length ts. date_le b (ts ! j) \<longrightarrow> r' ! j = r ! j))
                 (rows v) (rows v')"
    by (auto simp add: agree_from_def split: option.splits index.splits)
  let ?R = "\<lambda>r r'. length r = length ts \<and> length r' = length ts \<and>
              (\<forall>j < length ts. date_le b (ts ! j) \<longrightarrow> r' ! j = r ! j)"
  have m: "list_all2 ?R (matching ''total'' (rows v)) (matching ''total'' (rows v'))"
    using rs by (rule matching_all2)
  let ?k = "time_indexer parse ref (coords v)"
  have slice: "sel_time_from parse ref (normalised u tot) =
      bind ?k (\<lambda>keep. Inr (normalised (restrict keep u) (compress keep tot)))"
    if "coords u = coords v" for u tot
    using that by (simp add: sel_time_from_def rows_normalised restrict_normalised)
  show ?thesis
  proof (cases "matching ''total'' (rows v)")
    case Nil
    with m have "matching ''total'' (rows v') = []"
      by simp
    with Nil show ?thesis
      by (simp add: compute_fraction_cases sel_uncertainty_def)
  next
    case (Cons tot rest)
    with m obtain tot' rest' where v': "matching ''total'' (rows v') = tot' # rest'"
      and t: "?R tot tot'" and r: "list_all2 ?R rest rest'"
      by (auto simp add: list_all2_Cons1)
    show ?thesis
    proof (cases rest)
      case (Cons a as)
      with r obtain a' as' where "rest' = a' # as'"
        by (auto simp add: list_all2_Cons1)
      with Cons \<open>matching ''total'' (rows v) = tot # rest\<close> v' show ?thesis
        by (simp add: compute_fraction_cases sel_uncertainty_def)
    next
      case Nil
      with r have "rest' = []"
        by simp
      with Nil \<open>matching ''total'' (rows v) = tot # rest\<close> v'
      have f: "compute_fraction v = Inr (normalised v tot)"
        "compute_fraction v' = Inr (normalised v' tot')"
        by (simp_all add: compute_fraction_cases sel_uncertainty_def)
      show ?thesis
      proof (cases ?k)
        case (Inl e)
        then show ?thesis
          by (simp add: f slice cs)
      next
        case (Inr keep)
        with c assms(2) have keep: "keep = map (date_le b) ts"
          by (auto elim: time_indexer_dates)
        have "restrict keep v' = restrict keep v"
          using rows_agree [OF rs]
          by (intro data_array.equality) (simp_all add: restrict_def keep cs as)
        moreover have "compress keep tot' = compress keep tot"
          using t by (simp add: keep compress_agree)
        ultimately show ?thesis
          by (simp add: f slice cs Inr)
      qed
    qed
  qed
qed

subsection \<open>The calls that return\<close>

lemma add_lead_time_coord_Inr:
  assumes "add_lead_time_coord to_int da ref = Inr (lead_time, da')"
  obtains t ds r where "map_of (coords da) ''time'' = Some t" "cvals t = DateIndex ds"
    "to_int ref = Inr r" "int64 r" "lead_time = map (\<lambda>d. wrap64 (year d - r)) ds"
    "rows da' = rows da"
proof -
  from assms obtain t ds r where t: "map_of (coords da) ''time'' = Some t" "cvals t = DateIndex ds"
    "to_int ref = Inr r"
    by (auto simp add: add_lead_time_coord_def bind_def get_time_def dt_year_def
        split: option.splits index.splits sum.splits)
  from assms have "int64 r" "lead_time = map (\<lambda>d. wrap64 (year d - r)) ds" "rows da' = rows da"
    by (auto simp add: add_lead_time_coord_eq [of da t ds to_int ref r] t split: if_splits)
  with t that show ?thesis
    by blast
qed

lemma fill_between_Inr:
  assumes "fill_between x lo hi c ax = Inr ax'"
  shows "flat lo" "flat hi" "ax' = ax\<lparr>artists := artists ax @ [FillBetween x lo hi c]\<rparr>"
  using assms by (auto simp add: fill_between_def split: if_splits)

lemma flat_as_bound: "flat (as_bound s) \<Longrightarrow> \<exists>r. s = Row r"
  by (cases s) (simp_all add: flat_def as_bound_def)

lemma draw_areas_Inr:
  assumes "draw_areas lead_time y1 y2 ax = Inr ax'"
  obtains r1 r2 where "y1 = Row r1" "y2 = Row r2"
    "ax' = ax\<lparr>artists := artists ax @
           [FillBetween lead_time (Level 0) (Curve r1) ''#2B2B8B'',
            FillBetween lead_time (Curve r1) (Curve r2) ''#275620'',
            FillBetween lead_time (Curve r2) (Level 100) ''#DC551A'']\<rparr>"
proof -
  from assms obtain ax1 where 1: "fill_between lead_time (Level 0) (as_bound y1) ''#2B2B8B'' ax = Inr ax1"
    by (cases "fill_between lead_time (Level 0) (as_bound y1) ''#2B2B8B'' ax")
      (simp_all add: draw_areas_def getitem_def colors_def)
  with assms obtain ax2 where
    2: "fill_between lead_time (as_bound y1) (as_bound y2) ''#275620'' ax1 = Inr ax2"
    by (cases "fill_between lead_time (as_bound y1) (as_bound y2) ''#275620'' ax1")
      (simp_all add: draw_areas_def getitem_def colors_def)
  with assms 1 have 3: "fill_between lead_time (as_bound y2) (Level 100) ''#DC551A'' ax2 = Inr ax'"
    by (simp add: draw_areas_def getitem_def colors_def)
  from fill_between_Inr(1,2) [OF 2] obtain r1 r2 where r: "y1 = Row r1" "y2 = Row r2"
    by (blast dest: flat_as_bound)
  have "ax' = ax\<lparr>artists := artists ax @
           [FillBetween lead_time (Level 0) (Curve r1) ''#2B2B8B'',
            FillBetween lead_time (Curve r1) (Curve r2) ''#275620'',
            FillBetween lead_time (Curve r2) (Level 100) ''#DC551A'']\<rparr>"
    using fill_between_Inr(3) [OF 1] fill_between_Inr(3) [OF 2] fill_between_Inr(3) [OF 3]
    by (simp add: r as_bound_def)
  with r that show ?thesis
    by blast
qed

lemma add_selections_Row:
  assumes "add_selections s (Row r1) = Inr (Row r2)"
  obtains rs where "s = Row rs" "r2 = map2 fadd rs r1"
  using assms by (cases s) (simp_all add: add_selections_def)

text \<open>What a call of \<open>graph_fraction_of_total_variance\<close> that returns has done.\<close>

lemma graph_Inr:
  assumes "graph_fraction_of_total_variance parse to_int variance ref ax0 = Inr ax'"
  obtains f g lead_time h y1 s where
    "compute_fraction variance = Inr f" "sel_time_from parse ref f = Inr g"
    "add_lead_time_coord to_int g ref = Inr (lead_time, h)"
    "sel_uncertainty ''model'' h = Inr (Row y1)" "sel_uncertainty ''scenario'' h = Inr (Row s)"
    "ax' = decorate ref ((case ax0 of None \<Rightarrow> subplots | Some a \<Rightarrow> a)\<lparr>artists :=
       artists (case ax0 of None \<Rightarrow> subplots | Some a \<Rightarrow> a) @
         [FillBetween lead_time (Level 0) (Curve y1) ''#2B2B8B'',
          FillBetween lead_time (Curve y1) (Curve (map2 fadd s y1)) ''#275620'',
          FillBetween lead_time (Curve (map2 fadd s y1)) (Level 100) ''#DC551A'',
          Lines lead_time (zip y1 (map2 fadd s y1)) ''k'' 2]\<rparr>)"
proof -
  let ?ax = "case ax0 of None \<Rightarrow> subplots | Some a \<Rightarrow> a"
  note d = graph_fraction_of_total_variance_def Let_def
  from assms obtain f where f: "compute_fraction variance = Inr f"
    by (cases "compute_fraction variance") (simp_all add: d)
  from assms f obtain g where g: "sel_time_from parse ref f = Inr g"
    by (cases "sel_time_from parse ref f") (simp_all add: d)
  from assms f g obtain lead_time h where lt: "add_lead_time_coord to_int g ref = Inr (lead_time, h)"
    by (cases "add_lead_time_coord to_int g ref") (auto simp add: d)
  from assms f g lt obtain y1 where y1: "sel_uncertainty ''model'' h = Inr y1"
    by (cases "sel_uncertainty ''model'' h") (simp_all add: d)
  from assms f g lt y1 obtain s where s: "sel_uncertainty ''scenario'' h = Inr s"
    by (cases "sel_uncertainty ''scenario'' h") (simp_all add: d)
  from assms f g lt y1 s obtain y2 where y2: "add_selections s y1 = Inr y2"
    by (cases "add_selections s y1") (simp_all add: d)
  from assms f g lt y1 s y2 obtain ax1 where ax1: "draw_areas lead_time y1 y2 ?ax = Inr ax1"
    by (cases "draw_areas lead_time y1 y2 ?ax") (simp_all add: d)
  from assms f g lt y1 s y2 ax1 obtain lines where lines: "stack y1 y2 = Inr lines"
    by (cases "stack y1 y2") (simp_all add: d)
  from assms f g lt y1 s y2 ax1 lines obtain ax2 where
    ax2: "plot lead_time lines ''k'' 2 ax1 = Inr ax2" and ax': "ax' = decorate ref ax2"
    by (cases "plot lead_time lines ''k'' 2 ax1") (simp_all add: d)
  from ax1 obtain r1 r2 where r: "y1 = Row r1" "y2 = Row r2" and
    a1: "ax1 = ?ax\<lparr>artists := artists ?ax @
           [FillBetween lead_time (Level 0) (Curve r1) ''#2B2B8B'',
            FillBetween lead_time (Curve r1) (Curve r2) ''#275620'',
            FillBetween lead_time (Curve r2) (Level 100) ''#DC551A'']\<rparr>"
    by (rule draw_areas_Inr)
  from y2 r obtain rs where rs: "s = Row rs" "r2 = map2 fadd rs r1"
    by (auto elim: add_selections_Row)
  from lines r have l: "lines = zip r1 r2"
    by (auto simp add: stack_def split: if_splits)
  from ax2 have "ax2 = ax1\<lparr>artists := artists ax1 @ [Lines lead_time lines ''k'' 2]\<rparr>"
    by (auto simp add: plot_def split: if_splits)
  then have "ax' = decorate ref (?ax\<lparr>artists := artists ?ax @
         [FillBetween lead_time (Level 0) (Curve r1) ''#2B2B8B'',
          FillBetween lead_time (Curve r1) (Curve (map2 fadd rs r1)) ''#275620'',
          FillBetween lead_time (Curve (map2 fadd rs r1)) (Level 100) ''#DC551A'',
          Lines lead_time (zip r1 (map2 fadd rs r1)) ''k'' 2]\<rparr>)"
    by (simp add: ax' a1 l rs)
  with f g lt y1 s r rs that show ?thesis
    by blast
qed

lemma graph0:
  "graph_fraction_of_total_variance year_start py_int uncertainties0 ''2016'' None = Inr axes0"
  by (simp add: graph_fraction_of_total_variance_def fraction0 sel_time_from_def time_indexer_def
      restrict_def time0_def
      year_start_2016 date_le_def dec31_def add_lead_time_coord_def get_time_def dt_year_def
      py_int_2016 subtract64_def int64_def wrap64_def
      setitem_def set_coord_attr_def sel_uncertainty_def matching_def add_selections_def
      fadd_def is_inf_def finite_value_def
      draw_areas_def getitem_def as_bound_def stack_def
      colors_def fill_between_def flat_def lengths_def broadcastable_def plot_def decorate_def
      subplots_def Let_def axes0_def)

text \<open>
  C9. The function restricts the normalised array to the time points on or after the
  bound that \<open>ref\<close> denotes before anything is drawn. Two arrays that agree from that
  bound on, whatever their values at earlier time points, give the same result, the
  same axes or the same exception. And whenever the function returns, the time
  coordinate holds dates, and what it has drawn is made of the time points on or after
  the bound, of all of them and of no other: the lead times are the years of these time
  points minus \<open>int(ref)\<close>, in int64, and the curves are the normalised rows
  of \<open>model\<close> and \<open>scenario\<close> at the positions of these time points.
\<close>

theorem earlier_times_have_no_effect:
  "(parse ref = Inr b \<longrightarrow> agree_from b v v' \<longrightarrow>
      graph_fraction_of_total_variance parse to_int v ref ax0 =
      graph_fraction_of_total_variance parse to_int v' ref ax0) \<and>
   (graph_fraction_of_total_variance parse to_int v ref ax0 = Inr ax' \<longrightarrow>
      (\<exists>c ts b r m s tot.
         map_of (coords v) ''time'' = Some c \<and> cvals c = DateIndex ts \<and>
         parse ref = Inr b \<and> to_int ref = Inr r \<and>
         sel_uncertainty ''model'' v = Inr (Row m) \<and>
         sel_uncertainty ''scenario'' v = Inr (Row s) \<and>
         sel_uncertainty ''total'' v = Inr (Row tot) \<and>
         (let keep = map (date_le b) ts;
              lead_time = map (\<lambda>t. wrap64 (year t - r)) (filter (date_le b) ts);
              y1 = compress keep (map2 percent m tot);
              y2 = map2 fadd (compress keep (map2 percent s tot)) y1
          in artists ax' = artists (case ax0 of None \<Rightarrow> subplots | Some a \<Rightarrow> a) @
               [FillBetween lead_time (Level 0) (Curve y1) ''#2B2B8B'',
                FillBetween lead_time (Curve y1) (Curve y2) ''#275620'',
                FillBetween lead_time (Curve y2) (Level 100) ''#DC551A'',
                Lines lead_time (zip y1 y2) ''k'' 2])))"
proof (intro conjI impI)
  assume "parse ref = Inr b" and "agree_from b v v'"
  then have "bind (compute_fraction v) (sel_time_from parse ref) =
             bind (compute_fraction v') (sel_time_from parse ref)"
    by (intro agree_from_slice)
  then show "graph_fraction_of_total_variance parse to_int v ref ax0 =
      graph_fraction_of_total_variance parse to_int v' ref ax0"
    by (simp only: graph_unfold)
next
  let ?ax = "case ax0 of None \<Rightarrow> subplots | Some a \<Rightarrow> a"
  assume "graph_fraction_of_total_variance parse to_int v ref ax0 = Inr ax'"
  then obtain f g lead_time h y1 y where
    f: "compute_fraction v = Inr f" and g: "sel_time_from parse ref f = Inr g" and
    h: "add_lead_time_coord to_int g ref = Inr (lead_time, h)" and
    y1: "sel_uncertainty ''model'' h = Inr (Row y1)" and
    y: "sel_uncertainty ''scenario'' h = Inr (Row y)" and
    ax': "ax' = decorate ref (?ax\<lparr>artists := artists ?ax @
         [FillBetween lead_time (Level 0) (Curve y1) ''#2B2B8B'',
          FillBetween lead_time (Curve y1) (Curve (map2 fadd y y1)) ''#275620'',
          FillBetween lead_time (Curve (map2 fadd y y1)) (Level 100) ''#DC551A'',
          Lines lead_time (zip y1 (map2 fadd y y1)) ''k'' 2]\<rparr>)"
    by (rule graph_Inr)
  from f obtain tot where tot: "sel_uncertainty ''total'' v = Inr (Row tot)"
    and f_eq: "f = normalised v tot"
    by (rule compute_fraction_Inr)
  from g obtain keep where k: "time_indexer parse ref (coords f) = Inr keep"
    and g_eq: "g = restrict keep f"
    by (rule sel_time_from_Inr)
  from h obtain t' ds r where t': "map_of (coords g) ''time'' = Some t'" "cvals t' = DateIndex ds"
    and r: "to_int ref = Inr r" and lt: "lead_time = map (\<lambda>d. wrap64 (year d - r)) ds"
    and rows_h: "rows h = rows g"
    by (rule add_lead_time_coord_Inr)
  from t'(1) obtain c where c: "map_of (coords f) ''time'' = Some c"
    and "t' = c\<lparr>cvals := index_compress keep (cvals c)\<rparr>"
    by (auto simp add: g_eq restrict_time)
  with t'(2) obtain ts where ts: "cvals c = DateIndex ts" and ds: "ds = compress keep ts"
    by (auto elim: index_compress_dates)
  from c ts k obtain b where b: "parse ref = Inr b" and keep: "keep = map (date_le b) ts"
    by (rule time_indexer_dates)
  have ds': "ds = filter (date_le b) ts"
    by (simp add: ds keep compress_filter)
  have rows_hf: "rows h = map (\<lambda>(l, r). (l, compress keep r)) (rows f)"
    by (simp add: rows_h g_eq restrict_rows)
  have rows_fv: "rows f = map (\<lambda>(l, r). (l, map2 percent r tot)) (rows v)"
    by (simp add: f_eq rows_normalised)
  from rows_hf y1 obtain n1 where "sel_uncertainty ''model'' f = Inr (Row n1)" "y1 = compress keep n1"
    by (rule sel_uncertainty_Row_map_rows)
  with rows_fv obtain m where m: "sel_uncertainty ''model'' v = Inr (Row m)"
    and y1_eq: "y1 = compress keep (map2 percent m tot)"
    by (auto elim: sel_uncertainty_Row_map_rows)
  from rows_hf y obtain n2 where "sel_uncertainty ''scenario'' f = Inr (Row n2)" "y = compress keep n2"
    by (rule sel_uncertainty_Row_map_rows)
  with rows_fv obtain s where s: "sel_uncertainty ''scenario'' v = Inr (Row s)"
    and y_eq: "y = compress keep (map2 percent s tot)"
    by (auto elim: sel_uncertainty_Row_map_rows)
  have c': "map_of (coords v) ''time'' = Some c"
    using c by (simp add: f_eq rows_normalised)
  have "artists ax' = artists ?ax @
         [FillBetween lead_time (Level 0) (Curve y1) ''#2B2B8B'',
          FillBetween lead_time (Curve y1) (Curve (map2 fadd y y1)) ''#275620'',
          FillBetween lead_time (Curve (map2 fadd y y1)) (Level 100) ''#DC551A'',
          Lines lead_time (zip y1 (map2 fadd y y1)) ''k'' 2]"
    by (simp add: ax' decorate_def)
  then have "let keep = map (date_le b) ts;
              lead_time = map (\<lambda>t. wrap64 (year t - r)) (filter (date_le b) ts);
              y1 = compress keep (map2 percent m tot);
              y2 = map2 fadd (compress keep (map2 percent s tot)) y1
          in artists ax' = artists ?ax @
               [FillBetween lead_time (Level 0) (Curve y1) ''#2B2B8B'',
                FillBetween lead_time (Curve y1) (Curve y2) ''#275620'',
                FillBetween lead_time (Curve y2) (Level 100) ''#DC551A'',
                Lines lead_time (zip y1 y2) ''k'' 2]"
    by (simp add: Let_def lt ds' y1_eq y_eq keep)
  with c' ts b r m s tot show "\<exists>c ts b r m s tot.
         map_of (coords v) ''time'' = Some c \<and> cvals c = DateIndex ts \<and>
         parse ref = Inr b \<and> to_int ref = Inr r \<and>
         sel_uncertainty ''model'' v = Inr (Row m) \<and>
         sel_uncertainty ''scenario'' v = Inr (Row s) \<and>
         sel_uncertainty ''total'' v = Inr (Row tot) \<and>
         (let keep = map (date_le b) ts;
              lead_time = map (\<lambda>t. wrap64 (year t - r)) (filter (date_le b) ts);
              y1 = compress keep (map2 percent m tot);
              y2 = map2 fadd (compress keep (map2 percent s tot)) y1
          in artists ax' = artists ?ax @
               [FillBetween lead_time (Level 0) (Curve y1) ''#2B2B8B'',
                FillBetween lead_time (Curve y1) (Curve y2) ''#275620'',
                FillBetween lead_time (Curve y2) (Level 100) ''#DC551A'',
                Lines lead_time (zip y1 y2) ''k'' 2])"
    by blast
qed

theorem earlier_times_have_no_effect_witness:
  "year_start ''2016'' = Inr \<lparr>year = 2016, month = 1, day = 1\<rparr> \<and>
   agree_from \<lparr>year = 2016, month = 1, day = 1\<rparr> uncertainties0 uncertainties1 \<and>
   rows uncertainties1 \<noteq> rows uncertainties0 \<and>
   graph_fraction_of_total_variance year_start py_int uncertainties1 ''2016'' None =
   graph_fraction_of_total_variance year_start py_int uncertainties0 ''2016'' None \<and>
   graph_fraction_of_total_variance year_start py_int uncertainties0 ''2016'' None = Inr axes0 \<and>
   filter (date_le \<lparr>year = 2016, month = 1, day = 1\<rparr>) [dec31 2015, dec31 2016, dec31 2017] =
     [dec31 2016, dec31 2017]"
proof -
  have a: "agree_from \<lparr>year = 2016, month = 1, day = 1\<rparr> uncertainties0 uncertainties1"
    by (simp add: agree_from_def uncertainties0_def uncertainties1_def time0_def date_le_def
        dec31_def less_Suc_eq numeral_3_eq_3)
  have d: "rows uncertainties1 \<noteq> rows uncertainties0"
    by (simp add: uncertainties0_def uncertainties1_def)
  have f: "filter (date_le \<lparr>year = 2016, month = 1, day = 1\<rparr>) [dec31 2015, dec31 2016, dec31 2017] =
     [dec31 2016, dec31 2017]"
    by (simp add: date_le_def dec31_def)
  from earlier_times_have_no_effect [THEN conjunct1, of year_start "''2016''"
      "\<lparr>year = 2016, month = 1, day = 1\<rparr>" uncertainties0 uncertainties1 py_int None] a d f
  show ?thesis
    by (simp add: year_start_2016 graph0)
qed

subsection \<open>The bands\<close>

text \<open>
  C10. Whenever the function returns, it has added to the axes, in this order: the
  model band from the level 0 to the model fraction \<open>y1\<close>; the scenario band from
  \<open>y1\<close> to \<open>y1\<close> plus the scenario fraction; the variability band from that sum to
  the level 100, a constant in which the component \<open>variability\<close> has no part; and the
  two black lines. The limits of the y axis are 0 and 100. The fractions are those of
  the normalised array restricted to the time points from \<open>ref\<close> on.
\<close>

theorem stacked_bands:
  assumes "graph_fraction_of_total_variance parse to_int variance ref ax0 = Inr ax'"
  shows "\<exists>da lead_time da' y1 s.
      bind (compute_fraction variance) (sel_time_from parse ref) = Inr da \<and>
      add_lead_time_coord to_int da ref = Inr (lead_time, da') \<and>
      sel_uncertainty ''model'' da = Inr (Row y1) \<and>
      sel_uncertainty ''scenario'' da = Inr (Row s) \<and>
      artists ax' = artists (case ax0 of None \<Rightarrow> subplots | Some a \<Rightarrow> a) @
         [FillBetween lead_time (Level 0) (Curve y1) ''#2B2B8B'',
          FillBetween lead_time (Curve y1) (Curve (map2 fadd s y1)) ''#275620'',
          FillBetween lead_time (Curve (map2 fadd s y1)) (Level 100) ''#DC551A'',
          Lines lead_time (zip y1 (map2 fadd s y1)) ''k'' 2] \<and>
      ylim ax' = Some (0, 100)"
proof -
  let ?ax = "case ax0 of None \<Rightarrow> subplots | Some a \<Rightarrow> a"
  from assms obtain f g lead_time h y1 s where
    f: "compute_fraction variance = Inr f" and g: "sel_time_from parse ref f = Inr g" and
    h: "add_lead_time_coord to_int g ref = Inr (lead_time, h)" and
    y1: "sel_uncertainty ''model'' h = Inr (Row y1)" and
    s: "sel_uncertainty ''scenario'' h = Inr (Row s)" and
    ax': "ax' = decorate ref (?ax\<lparr>artists := artists ?ax @
         [FillBetween lead_time (Level 0) (Curve y1) ''#2B2B8B'',
          FillBetween lead_time (Curve y1) (Curve (map2 fadd s y1)) ''#275620'',
          FillBetween lead_time (Curve (map2 fadd s y1)) (Level 100) ''#DC551A'',
          Lines lead_time (zip y1 (map2 fadd s y1)) ''k'' 2]\<rparr>)"
    by (rule graph_Inr)
  have rows: "rows h = rows g"
    using h by (rule add_lead_time_coord_Inr)
  have "artists ax' = artists ?ax @
         [FillBetween lead_time (Level 0) (Curve y1) ''#2B2B8B'',
          FillBetween lead_time (Curve y1) (Curve (map2 fadd s y1)) ''#275620'',
          FillBetween lead_time (Curve (map2 fadd s y1)) (Level 100) ''#DC551A'',
          Lines lead_time (zip y1 (map2 fadd s y1)) ''k'' 2]"
    by (simp add: ax' decorate_def)
  moreover have "ylim ax' = Some (0, 100)"
    by (simp add: ax' decorate_def)
  moreover have "sel_uncertainty ''model'' g = Inr (Row y1)"
    "sel_uncertainty ''scenario'' g = Inr (Row s)"
    using y1 s rows by (simp_all add: sel_uncertainty_def)
  moreover have "bind (compute_fraction variance) (sel_time_from parse ref) = Inr g"
    using f g by simp
  ultimately show ?thesis
    using h by blast
qed

lemma graph2:
  "graph_fraction_of_total_variance year_start py_int uncertainties2 ''2016'' None = Inr axes0"
  by (simp add: graph_fraction_of_total_variance_def compute_fraction_cases normalised_def
      percent_def fdiv_def fmul_def is_zero_def negative_def zero_of_def inf_of_def
      uncertainties2_def sel_time_from_def time_indexer_def
      restrict_def time0_def
      year_start_2016 date_le_def dec31_def add_lead_time_coord_def get_time_def dt_year_def
      py_int_2016 subtract64_def int64_def wrap64_def
      setitem_def set_coord_attr_def sel_uncertainty_def matching_def add_selections_def
      fadd_def is_inf_def finite_value_def
      draw_areas_def getitem_def as_bound_def stack_def
      colors_def fill_between_def flat_def lengths_def broadcastable_def plot_def decorate_def
      subplots_def Let_def axes0_def)

theorem stacked_bands_witness:
  "graph_fraction_of_total_variance year_start py_int uncertainties2 ''2016'' None = Inr axes0 \<and>
   bind (bind (compute_fraction uncertainties2) (sel_time_from year_start ''2016''))
     (sel_uncertainty ''variability'') = Inr (Row [Fin 50, Fin 25]) \<and>
   artists axes0 =
     [FillBetween [0, 1] (Level 0) (Curve [Fin 50, Fin (75 / 2)]) ''#2B2B8B'',
      FillBetween [0, 1] (Curve [Fin 50, Fin (75 / 2)]) (Curve [Fin 75, Fin (175 / 2)]) ''#275620'',
      FillBetween [0, 1] (Curve [Fin 75, Fin (175 / 2)]) (Level 100) ''#DC551A'',
      Lines [0, 1] [(Fin 50, Fin 75), (Fin (75 / 2), Fin (175 / 2))] ''k'' 2] \<and>
   ylim axes0 = Some (0, 100)"
  using stacked_bands [OF graph2]
  by (simp add: graph2)
    (simp add: compute_fraction_cases normalised_def
      percent_def fdiv_def fmul_def is_zero_def is_inf_def negative_def zero_of_def inf_of_def
      finite_value_def sel_time_from_def time_indexer_def restrict_def
      time0_def uncertainties2_def
      year_start_2016 date_le_def dec31_def sel_uncertainty_def matching_def axes0_def)

subsection \<open>The label selections\<close>

lemma labels_normalised: "map fst (rows (normalised v tot)) = map fst (rows v)"
  by (simp only: rows_normalised labels_map_rows)

lemma labels_restrict: "map fst (rows (restrict keep v)) = map fst (rows v)"
  by (simp only: restrict_rows labels_map_rows)

text \<open>
  C6, as the code has it. The uncertainty kinds are exactly model, scenario, variability
  and total, the keys of \<open>colors\<close>, and an array labelled with them holds the labels
  total, model and scenario. When the coordinate \<open>uncertainty\<close> of the input holds
  at least these three labels, every selection by a label of \<open>uncertainty\<close> that
  the function makes succeeds: the selection of \<open>total\<close> on the input, and the
  selections of \<open>model\<close> and \<open>scenario\<close> on the array that the normalisation,
  the slicing and the lead time leave, whenever the function gets that far. The
  selection by \<open>time\<close> is not among them.
\<close>

theorem label_selections_succeed:
  "set uncertainty_kinds = {''model'', ''scenario'', ''variability'', ''total''} \<and>
   fst ` set colors = set uncertainty_kinds \<and>
   (set (map fst (rows variance)) = set uncertainty_kinds \<longrightarrow>
      {''total'', ''model'', ''scenario''} \<subseteq> fst ` set (rows variance)) \<and>
   ({''total'', ''model'', ''scenario''} \<subseteq> fst ` set (rows variance) \<longrightarrow>
     (\<exists>tot. sel_uncertainty ''total'' variance = Inr tot) \<and>
     (\<forall>f g lead_time h. compute_fraction variance = Inr f \<longrightarrow>
        sel_time_from parse ref f = Inr g \<longrightarrow>
        add_lead_time_coord to_int g ref = Inr (lead_time, h) \<longrightarrow>
        (\<exists>y1 s. sel_uncertainty ''model'' h = Inr y1 \<and>
                sel_uncertainty ''scenario'' h = Inr s)))"
proof (intro conjI impI allI)
  show "set uncertainty_kinds = {''model'', ''scenario'', ''variability'', ''total''}"
    by (auto simp add: uncertainty_kinds_def)
  show "fst ` set colors = set uncertainty_kinds"
    by (simp add: colors_def uncertainty_kinds_def)
next
  assume "set (map fst (rows variance)) = set uncertainty_kinds"
  then show "{''total'', ''model'', ''scenario''} \<subseteq> fst ` set (rows variance)"
    by (simp add: uncertainty_kinds_def)
next
  assume "{''total'', ''model'', ''scenario''} \<subseteq> fst ` set (rows variance)"
  then show "\<exists>tot. sel_uncertainty ''total'' variance = Inr tot"
    by (intro sel_uncertainty_succeeds) simp
next
  fix f g lead_time h
  assume pre: "{''total'', ''model'', ''scenario''} \<subseteq> fst ` set (rows variance)"
    and f: "compute_fraction variance = Inr f" and g: "sel_time_from parse ref f = Inr g"
    and h: "add_lead_time_coord to_int g ref = Inr (lead_time, h)"
  from f obtain tot where "f = normalised variance tot"
    by (rule compute_fraction_Inr)
  moreover from g obtain keep where "g = restrict keep f"
    by (rule sel_time_from_Inr)
  moreover have "rows h = rows g"
    using h by (rule add_lead_time_coord_Inr)
  ultimately have "map fst (rows h) = map fst (rows variance)"
    by (simp add: labels_normalised labels_restrict)
  then have "fst ` set (rows h) = fst ` set (rows variance)"
    by (metis set_map)
  with pre have "''model'' \<in> fst ` set (rows h)" "''scenario'' \<in> fst ` set (rows h)"
    by auto
  then show "\<exists>y1 s. sel_uncertainty ''model'' h = Inr y1 \<and> sel_uncertainty ''scenario'' h = Inr s"
    using sel_uncertainty_succeeds [of "''model''" h] sel_uncertainty_succeeds [of "''scenario''" h]
    by blast
qed

theorem label_selections_succeed_witness:
  "{''total'', ''model'', ''scenario''} \<subseteq> fst ` set (rows uncertainties0) \<and>
   map fst (rows uncertainties0) = uncertainty_kinds \<and>
   sel_uncertainty ''total'' uncertainties0 = Inr (Row [Fin 4, Fin 4, Fin 8]) \<and>
   bind (bind (compute_fraction uncertainties0) (sel_time_from year_start ''2016''))
     (sel_uncertainty ''scenario'') = Inr (Row [Fin 25, Fin 50])"
  using label_selections_succeed [of uncertainties0 year_start "''2016''" py_int]
  by (simp add: fraction0 sel_time_from_def time_indexer_def restrict_def time0_def
      year_start_2016 date_le_def dec31_def sel_uncertainty_def matching_def uncertainty_kinds_def)
    (simp add: uncertainties0_def)

text \<open>
  C6, as the claim states it, fails: the function also selects by the labels of
  \<open>time\<close>, and that selection can raise with the precondition met. The example has
  the three labels and no coordinate \<open>time\<close>: the fraction is computed, and the
  selection \<open>.sel(time=slice(ref, None))\<close> raises \<open>KeyError\<close>.
\<close>

theorem time_selection_fails:
  "''total'' \<in> fst ` set (rows uncertainties5) \<and> ''model'' \<in> fst ` set (rows uncertainties5) \<and>
   ''scenario'' \<in> fst ` set (rows uncertainties5) \<and>
   map_sum id rows (compute_fraction uncertainties5) = map_sum id rows (compute_fraction uncertainties0) \<and>
   bind (compute_fraction uncertainties5) (sel_time_from year_start ''2016'') = Inl (KeyError ''time'') \<and>
   graph_fraction_of_total_variance year_start py_int uncertainties5 ''2016'' None =
     Inl (KeyError ''time'')"
  by (simp add: graph_unfold fraction0)
    (simp add: compute_fraction_cases normalised_def sel_uncertainty_def matching_def
      uncertainties5_def uncertainties0_def sel_time_from_def time_indexer_def
      percent_def fdiv_def fmul_def is_zero_def is_inf_def negative_def zero_of_def inf_of_def
      finite_value_def)

subsection \<open>The fetch loop\<close>

lemma format_pat:
  "str_format pat [(''model'', model), (''scenario'', scenario), (''member'', member)] =
     Inr (''CMIP6_'' @ model @ ''_'' @ scenario @ ''_'' @ member @ ''.csv'')"
  by (simp add: str_format_def pat_def getitem_def)

lemma rbind_ret [simp]: "rbind (ret x) f = f x"
  by (simp add: rbind_def ret_def split: prod.splits)

lemma rbind_ret_right [simp]: "rbind m ret = m"
  by (simp add: rbind_def ret_def split: prod.splits sum.splits)

lemma rbind_assoc: "rbind (rbind m f) g = rbind m (\<lambda>x. rbind (f x) g)"
  by (simp add: rbind_def split: prod.splits sum.splits)

lemma rbind_Inl [simp]: "rbind (l, Inl e) f = (l, Inl e)"
  by (simp add: rbind_def)

lemma rbind_Inr [simp]: "rbind (l, Inr x) f = (l @ fst (f x), snd (f x))"
  by (simp add: rbind_def split: prod.splits)

lemma snd_rbind: "snd (rbind m f) = bind (snd m) (\<lambda>x. snd (f x))"
  by (cases m; cases "snd m") (auto simp add: rbind_def split: prod.splits)

lemma fetch_one_eq:
  "fetch_one net model member scenario =
     (let url = url_shape model scenario member in
      case net url of
        Inl e \<Rightarrow> ([HttpGet url], Inl e)
      | Inr table \<Rightarrow>
          (case getitem_column table ''world'' of
             Inl e \<Rightarrow> ([HttpGet url], Inl e)
           | Inr df \<Rightarrow>
               (case expand_dims model scenario df of
                  Inl e \<Rightarrow> ([HttpGet url, ExpandDims model scenario], Inl e)
                | Inr da \<Rightarrow> ([HttpGet url, ExpandDims model scenario], rename_date_time da))))"
  by (simp add: fetch_one_def format_pat lift_def call_def url_shape_def Let_def
      split: sum.splits)

lemma scenario_loop_traverse:
  "scenario_loop net model member scs data =
     rbind (traverse (fetch_one net model member) scs) (\<lambda>ys. ret (data @ ys))"
proof (induction scs arbitrary: data)
  case Nil
  then show ?case by simp
next
  case (Cons s scs)
  show ?case
    by (simp add: Cons.IH rbind_assoc)
qed

lemma traverse_append:
  "traverse f (xs @ ys) =
     rbind (traverse f xs) (\<lambda>as. rbind (traverse f ys) (\<lambda>bs. ret (as @ bs)))"
  by (induction xs) (simp_all add: rbind_assoc)

lemma traverse_map: "traverse f (map g xs) = traverse (\<lambda>x. f (g x)) xs"
  by (induction xs) simp_all

lemma model_loop_traverse:
  "model_loop net mms scs data =
     rbind (traverse (\<lambda>(model, member, scenario). fetch_one net model member scenario)
              (combos mms scs)) (\<lambda>ys. ret (data @ ys))"
proof (induction mms arbitrary: data)
  case Nil
  then show ?case by (simp add: combos_def)
next
  case (Cons mm mms)
  obtain model member where mm: "mm = (model, member)" by (cases mm)
  have c: "combos (mm # mms) scs = map (\<lambda>scenario. (model, member, scenario)) scs @ combos mms scs"
    by (simp add: combos_def mm)
  show ?case
    by (simp add: mm c del: traverse.simps add: scenario_loop_traverse Cons.IH traverse_append traverse_map rbind_assoc combos_def)
qed

lemma fetch_loop_traverse:
  "fetch_loop net =
     traverse (\<lambda>(model, member, scenario). fetch_one net model member scenario)
       (combos (zip models members) scenarios)"
  by (simp add: fetch_loop_def model_loop_traverse)

lemma requests_append: "requests (xs @ ys) = requests xs @ requests ys"
  by (induction xs rule: requests.induct) simp_all

lemma traverse_Cons_fail:
  "snd (f x) = Inl e \<Longrightarrow> traverse f (x # xs) = (fst (f x), Inl e)"
  by (cases "f x") simp

lemma traverse_Cons_ok:
  "snd (f x) = Inr y \<Longrightarrow>
     traverse f (x # xs) =
       (fst (f x) @ fst (traverse f xs), map_sum id ((#) y) (snd (traverse f xs)))"
  by (cases "f x"; cases "traverse f xs"; cases "snd (traverse f xs)")
    (simp_all add: ret_def)

lemma traverse_ok:
  assumes "\<forall>x \<in> set xs. \<exists>y. snd (f x) = Inr y"
  shows "\<exists>ys. traverse f xs = (concat (map (\<lambda>x. fst (f x)) xs), Inr ys)"
  using assms
proof (induction xs)
  case Nil
  then show ?case by (simp add: ret_def)
next
  case (Cons x xs)
  then obtain y ys where "snd (f x) = Inr y"
    "traverse f xs = (concat (map (\<lambda>x. fst (f x)) xs), Inr ys)"
    by auto
  then show ?case
    by (simp add: traverse_Cons_ok del: traverse.simps)
qed

lemma traverse_fail:
  assumes "i < length xs" and "\<forall>j < i. \<exists>y. snd (f (xs ! j)) = Inr y"
    and "snd (f (xs ! i)) = Inl e"
  shows "traverse f xs = (concat (map (\<lambda>x. fst (f x)) (take (Suc i) xs)), Inl e)"
  using assms
proof (induction xs arbitrary: i)
  case Nil
  then show ?case by simp
next
  case (Cons x xs)
  show ?case
  proof (cases i)
    case 0
    with Cons.prems show ?thesis
      by (simp add: traverse_Cons_fail del: traverse.simps)
  next
    case (Suc k)
    from Cons.prems(2) Suc obtain y where y: "snd (f x) = Inr y"
      by fastforce
    have "traverse f xs = (concat (map (\<lambda>x. fst (f x)) (take (Suc k) xs)), Inl e)"
    proof (rule Cons.IH)
      show "k < length xs" using Cons.prems(1) Suc by simp
      show "\<forall>j < k. \<exists>y. snd (f (xs ! j)) = Inr y"
        using Cons.prems(2) Suc by fastforce
      show "snd (f (xs ! k)) = Inl e" using Cons.prems(3) Suc by simp
    qed
    with y Suc show ?thesis
      by (simp add: traverse_Cons_ok del: traverse.simps)
  qed
qed

lemma traverse_first_failure:
  assumes "snd (traverse f xs) = Inl e"
  shows "\<exists>i < length xs. snd (f (xs ! i)) = Inl e \<and> (\<forall>j < i. \<exists>y. snd (f (xs ! j)) = Inr y)"
  using assms
proof (induction xs)
  case Nil
  then show ?case by (simp add: ret_def)
next
  case (Cons x xs)
  show ?case
  proof (cases "snd (f x)")
    case (Inl e')
    with Cons.prems have "e' = e"
      by (simp add: traverse_Cons_fail del: traverse.simps)
    with Inl show ?thesis
      by (intro exI [of _ 0]) simp
  next
    case (Inr y)
    with Cons.prems have "snd (traverse f xs) = Inl e"
      by (cases "snd (traverse f xs)") (simp_all add: traverse_Cons_ok del: traverse.simps)
    with Cons.IH obtain i where i: "i < length xs" "snd (f (xs ! i)) = Inl e"
      "\<forall>j < i. \<exists>y. snd (f (xs ! j)) = Inr y"
      by blast
    have "\<forall>j < Suc i. \<exists>y. snd (f ((x # xs) ! j)) = Inr y"
      using i(3) Inr by (auto simp add: less_Suc_eq_0_disj)
    with i(1,2) show ?thesis
      by (intro exI [of _ "Suc i"]) simp
  qed
qed

lemma traverse_Inr:
  assumes "snd (traverse f xs) = Inr ys"
  shows "fst (traverse f xs) = concat (map (\<lambda>x. fst (f x)) xs) \<and>
         list_all2 (\<lambda>x y. snd (f x) = Inr y) xs ys"
  using assms
proof (induction xs arbitrary: ys)
  case Nil
  then show ?case by (simp add: ret_def)
next
  case (Cons x xs)
  show ?case
  proof (cases "snd (f x)")
    case (Inl e)
    with Cons.prems show ?thesis
      by (simp add: traverse_Cons_fail del: traverse.simps)
  next
    case (Inr y)
    with Cons.prems obtain zs where zs: "snd (traverse f xs) = Inr zs" "ys = y # zs"
      by (cases "snd (traverse f xs)") (auto simp add: traverse_Cons_ok simp del: traverse.simps)
    with Cons.IH [OF zs(1)] Inr show ?thesis
      by (simp add: traverse_Cons_ok del: traverse.simps)
  qed
qed

lemma requests_fetch_one:
  "requests (fst (fetch_one net model member scenario)) = [url_shape model scenario member]"
  by (simp add: fetch_one_eq Let_def split: sum.splits)

lemma requests_concat_fetch_one:
  "requests (concat (map (\<lambda>x. fst (case x of (model, member, scenario) \<Rightarrow>
       fetch_one net model member scenario)) cs)) =
     map (\<lambda>(model, member, scenario). url_shape model scenario member) cs"
  by (induction cs) (auto simp add: requests_append requests_fetch_one)

lemma combos_notebook:
  "combos (zip models members) scenarios =
     [(''ACCESS-CM2'', ''r1i1p1f1'', ''ssp245''), (''ACCESS-CM2'', ''r1i1p1f1'', ''ssp370''),
      (''ACCESS-CM2'', ''r1i1p1f1'', ''ssp585''),
      (''CMCC-CM2-SR5'', ''r1i1p1f1'', ''ssp245''), (''CMCC-CM2-SR5'', ''r1i1p1f1'', ''ssp370''),
      (''CMCC-CM2-SR5'', ''r1i1p1f1'', ''ssp585''),
      (''CanESM5'', ''r1i1p1f1'', ''ssp245''), (''CanESM5'', ''r1i1p1f1'', ''ssp370''),
      (''CanESM5'', ''r1i1p1f1'', ''ssp585'')]"
  by (simp add: combos_def models_def members_def scenarios_def)

lemma url_shape_inj:
  "url_shape m s mem = url_shape m' s' mem' \<longleftrightarrow>
     m @ ''_'' @ s @ ''_'' @ mem = m' @ ''_'' @ s' @ ''_'' @ mem'"
  by (simp add: url_shape_def)

lemma fetch_one_net0:
  "fetch_one net0 model member scenario =
     ([HttpGet (url_shape model scenario member), ExpandDims model scenario],
      Inr (member0 model scenario))"
  by (simp add: fetch_one_eq net0_def table0_def getitem_column_def expand_dims_def
      rename_date_time_def member0_def)

lemma fetch0:
  "fetch_loop net0 =
     (take 18 trace0,
      Inr (map (\<lambda>(model, member, scenario). member0 model scenario)
             (combos (zip models members) scenarios)))"
  by (simp add: fetch_loop_traverse combos_notebook fetch_one_net0 rbind_def ret_def trace0_def
      del: rbind_Inr)

lemma fetch_one_net1:
  "fetch_one net1 ''ACCESS-CM2'' ''r1i1p1f1'' ''ssp245'' =
     ([HttpGet (url_shape ''ACCESS-CM2'' ''ssp245'' ''r1i1p1f1''), ExpandDims ''ACCESS-CM2'' ''ssp245''],
      Inr (member0 ''ACCESS-CM2'' ''ssp245''))"
  "fetch_one net1 ''ACCESS-CM2'' ''r1i1p1f1'' ''ssp370'' =
     ([HttpGet (url_shape ''ACCESS-CM2'' ''ssp370'' ''r1i1p1f1'')],
      Inl (IOError ''HTTP Error 404: Not Found''))"
  by (simp_all add: fetch_one_eq net1_def url_shape_inj table0_def getitem_column_def
      expand_dims_def rename_date_time_def member0_def)

lemma fetch1:
  "fetch_loop net1 =
     ([HttpGet (url_shape ''ACCESS-CM2'' ''ssp245'' ''r1i1p1f1''), ExpandDims ''ACCESS-CM2'' ''ssp245'',
       HttpGet (url_shape ''ACCESS-CM2'' ''ssp370'' ''r1i1p1f1'')],
      Inl (IOError ''HTTP Error 404: Not Found''))"
  by (simp add: fetch_loop_traverse combos_notebook fetch_one_net1 rbind_def ret_def
      del: rbind_Inr)

subsection \<open>Exceptions propagate\<close>

lemma wraps_ret: "wraps [] (ret x)"
  by (simp add: wraps_def ret_def)

lemma wraps_logged: "wraps [n] (logged n r)"
  by (cases r) (simp_all add: wraps_def logged_def)

lemma wraps_rbind:
  assumes "wraps ns m" and "\<And>x. wraps ns' (f x)"
  shows "wraps (ns @ ns') (rbind m f)"
proof (cases m)
  case (Pair l res)
  show ?thesis
  proof (cases res)
    case (Inl e)
    with Pair assms(1) show ?thesis
      by (auto simp add: wraps_def rbind_def simp del: rbind_Inl rbind_Inr)
  next
    case (Inr x)
    obtain l' r' where fx: "f x = (l', r')"
      by (cases "f x")
    from assms(2) [of x] have w: "wraps ns' (l', r')"
      by (simp add: fx)
    from Pair Inr assms(1) have l: "map fst l = ns" "\<forall>c \<in> set l. snd c = None"
      by (auto simp add: wraps_def)
    have "rbind m f = (l @ l', r')"
      by (simp add: Pair Inr fx rbind_def del: rbind_Inl rbind_Inr)
    with w l show ?thesis
      by (cases r') (auto simp add: wraps_def butlast_append dest: in_set_butlastD)
  qed
qed

lemma wraps_bind_logged:
  "(\<And>x. wraps ns (f x)) \<Longrightarrow> wraps (n # ns) (rbind (logged n r) f)"
  using wraps_rbind [of "[n]" "logged n r" ns f] by (simp add: wraps_logged)

lemma wraps_case_prod:
  "(\<And>a b. wraps ns (f a b)) \<Longrightarrow> wraps ns (case x of (a, b) \<Rightarrow> f a b)"
  by (cases x) simp

lemma lift_colors:
  "rbind (lift (getitem colors ''model'')) f = f ''#2B2B8B''"
  "rbind (lift (getitem colors ''scenario'')) f = f ''#275620''"
  "rbind (lift (getitem colors ''variability'')) f = f ''#DC551A''"
  by (simp_all add: lift_def getitem_def colors_def)

lemma add_lead_time_coord_wraps:
  "wraps add_lead_time_coord_names (add_lead_time_coord_calls lib da ref)"
  unfolding add_lead_time_coord_names_def add_lead_time_coord_calls_def
  by (intro wraps_bind_logged wraps_ret)

lemma graph_wraps:
  "wraps (graph_names ax0) (graph_fraction_of_total_variance_calls lib variance ref ax0)"
proof (cases ax0)
  case None
  show ?thesis
    unfolding None graph_names_def graph_fraction_of_total_variance_calls_def lift_colors option.case
    by (simp only: append_Cons append_Nil)
      (intro wraps_bind_logged wraps_rbind wraps_case_prod add_lead_time_coord_wraps wraps_ret)
next
  case (Some a)
  show ?thesis
    unfolding Some graph_names_def graph_fraction_of_total_variance_calls_def lift_colors option.case
      rbind_ret
    by (simp only: append_Cons append_Nil)
      (intro wraps_bind_logged wraps_rbind wraps_case_prod add_lead_time_coord_wraps wraps_ret)
qed

lemma snd_logged: "snd (logged n r) = r"
  by (simp add: logged_def)

lemma snd_ret: "snd (ret x) = Inr x"
  by (simp add: ret_def)

lemma add_lead_time_coord_link:
  "map_sum id (apfst snd) (snd (add_lead_time_coord_calls (modelled_library parse to_int) da ref)) =
     add_lead_time_coord to_int da ref"
  by (cases "get_time da"; cases "dt_year (projr (get_time da))"; cases "to_int ref";
      cases "subtract64 (projr (dt_year (projr (get_time da)))) (projr (to_int ref))")
    (simp_all add: add_lead_time_coord_calls_def snd_rbind snd_logged snd_ret modelled_library_def
      add_lead_time_coord_def Let_def set_coord_attr_def setitem_def update_conv')

lemma bind_map_sum: "bind (map_sum id g m) f = bind m (\<lambda>x. f (g x))"
  by (cases m) simp_all

lemma modelled_library_simps:
  "lib_subplots (modelled_library parse to_int) = Inr subplots"
  "lib_sel (modelled_library parse to_int) = sel_uncertainty"
  "lib_truediv (modelled_library parse to_int) = divide_by"
  "lib_mul (modelled_library parse to_int) = (\<lambda>da k. Inr (times_scalar da k))"
  "lib_sel_time (modelled_library parse to_int) = sel_time_from parse"
  "lib_add (modelled_library parse to_int) = add_selections"
  "lib_fill_between (modelled_library parse to_int) =
     (\<lambda>lead_time lo hi. fill_between (snd lead_time) (bound_of lo) (bound_of hi))"
  "lib_stack (modelled_library parse to_int) = stack"
  "lib_plot (modelled_library parse to_int) = (\<lambda>lead_time. plot (snd lead_time))"
  "lib_set_locator (modelled_library parse to_int) = (\<lambda>which loc ax. Inr (set_locator which loc ax))"
  "lib_set_xlabel (modelled_library parse to_int) = (\<lambda>s ax. Inr (ax\<lparr>xlabel := s\<rparr>))"
  "lib_set_ylabel (modelled_library parse to_int) = (\<lambda>s ax. Inr (ax\<lparr>ylabel := s\<rparr>))"
  "lib_set_ylim (modelled_library parse to_int) = (\<lambda>lo hi ax. Inr (ax\<lparr>ylim := Some (lo, hi)\<rparr>))"
  by (simp_all add: modelled_library_def)

lemma graph_link:
  "snd (graph_fraction_of_total_variance_calls (modelled_library parse to_int) v ref ax0) =
     graph_fraction_of_total_variance parse to_int v ref ax0"
  by (cases ax0)
    (simp_all add: graph_fraction_of_total_variance_calls_def graph_fraction_of_total_variance_def
      snd_rbind snd_logged snd_ret lift_def modelled_library_simps compute_fraction_def
      bind_sum_assoc draw_areas_def getitem_def colors_def bound_of_def decorate_def
      set_locator_def case_prod_unfold Let_def
      add_lead_time_coord_link [of parse to_int, symmetric] bind_map_sum)

lemma fetch_one_raises:
  "snd (fetch_one net model member scenario) = Inl e \<longleftrightarrow>
     net (url_shape model scenario member) = Inl e \<or>
     (\<exists>table. net (url_shape model scenario member) = Inr table \<and>
        (getitem_column table ''world'' = Inl e \<or>
         (\<exists>df. getitem_column table ''world'' = Inr df \<and>
            (expand_dims model scenario df = Inl e \<or>
             (\<exists>da. expand_dims model scenario df = Inr da \<and> rename_date_time da = Inl e)))))"
  by (simp add: fetch_one_eq Let_def split: sum.splits)

lemma fetch_loop_raises:
  "snd (fetch_loop net) = Inl e \<longleftrightarrow>
     (\<exists>i < length (combos (zip models members) scenarios).
        snd (case combos (zip models members) scenarios ! i of
               (model, member, scenario) \<Rightarrow> fetch_one net model member scenario) = Inl e \<and>
        (\<forall>j < i. \<exists>da. snd (case combos (zip models members) scenarios ! j of
               (model, member, scenario) \<Rightarrow> fetch_one net model member scenario) = Inr da) \<and>
        requests (fst (fetch_loop net)) =
          map (\<lambda>(model, member, scenario). url_shape model scenario member)
            (take (Suc i) (combos (zip models members) scenarios)))"
  (is "?l \<longleftrightarrow> ?r")
proof
  let ?f = "\<lambda>(model, member, scenario). fetch_one net model member scenario"
  let ?cs = "combos (zip models members) scenarios"
  assume ?l
  then obtain i where i: "i < length ?cs" "snd (?f (?cs ! i)) = Inl e"
    "\<forall>j < i. \<exists>y. snd (?f (?cs ! j)) = Inr y"
    unfolding fetch_loop_traverse by (blast dest: traverse_first_failure)
  then have "fetch_loop net = (concat (map (\<lambda>x. fst (?f x)) (take (Suc i) ?cs)), Inl e)"
    unfolding fetch_loop_traverse by (intro traverse_fail) auto
  then have "requests (fst (fetch_loop net)) =
      map (\<lambda>(model, member, scenario). url_shape model scenario member) (take (Suc i) ?cs)"
    by (simp add: requests_concat_fetch_one)
  with i show ?r by blast
next
  let ?f = "\<lambda>(model, member, scenario). fetch_one net model member scenario"
  let ?cs = "combos (zip models members) scenarios"
  assume ?r
  then obtain i where i: "i < length ?cs" "snd (?f (?cs ! i)) = Inl e"
    "\<forall>j < i. \<exists>y. snd (?f (?cs ! j)) = Inr y"
    by blast
  then have "fetch_loop net = (concat (map (\<lambda>x. fst (?f x)) (take (Suc i) ?cs)), Inl e)"
    unfolding fetch_loop_traverse by (intro traverse_fail) auto
  then show ?l by simp
qed

lemma py_int_20x6: "py_int ''20x6'' = Inl (ValueError ''20x6'')"
  by (simp add: py_int_def strip_def signed_digits_def digits_def is_space_def is_digit_def
      digit_val_def)

lemma calls_lead_time_20x6:
  "add_lead_time_coord_calls (modelled_library year_start py_int) uncertainties0 ''20x6'' =
     ([(''time'', None), (''dt.year'', None), (''int'', Some (ValueError ''20x6''))],
      Inl (ValueError ''20x6''))"
  by (simp add: add_lead_time_coord_calls_def modelled_library_def logged_def rbind_def
      get_time_def dt_year_def time0_uncertainties0 py_int_20x6 del: rbind_Inr)

lemma calls_graph_no_total:
  "graph_fraction_of_total_variance_calls (modelled_library year_start py_int)
     (uncertainties0\<lparr>rows := [(''model'', [Fin 1, Fin 2, Fin 3])]\<rparr>) ''2016'' None =
     ([(''subplots'', None), (''sel'', Some (KeyError ''total''))], Inl (KeyError ''total''))"
  by (simp add: graph_fraction_of_total_variance_calls_def modelled_library_simps logged_def
      rbind_def sel_uncertainty_def matching_def del: rbind_Inr)



subsection \<open>The runs of the notebook\<close>

lemma notebook_run:
  "notebook net combine hs ps ph parse to_int =
     (case fetch_loop net of
        (F, Inl e) \<Rightarrow> (F, Inl e)
      | (F, Inr data) \<Rightarrow>
          (case combine data of
             Inl e \<Rightarrow> (F @ [CombineByCoords], Inl e)
           | Inr ens_mon \<Rightarrow>
               (case resample_mean ens_mon of
                  Inl e \<Rightarrow> (F @ [CombineByCoords, ResampleMean], Inl e)
                | Inr ens \<Rightarrow>
                    (case plot_scenarios ps ens (e_scenario ens) of
                       (P, Inl e) \<Rightarrow> (F @ [CombineByCoords, ResampleMean] @ P, Inl e)
                     | (P, Inr u) \<Rightarrow>
                         (case hs ens (''2016'', ''2030'') of
                            Inl e \<Rightarrow> (F @ [CombineByCoords, ResampleMean] @ P @ [HawkinsSutton], Inl e)
                          | Inr (mean, uncertainties) \<Rightarrow>
                              (case ph uncertainties of
                                 Inl e \<Rightarrow>
                                   (F @ [CombineByCoords, ResampleMean] @ P @
                                      [HawkinsSutton, PlotUncertainties], Inl e)
                               | Inr u' \<Rightarrow>
                                   (F @ [CombineByCoords, ResampleMean] @ P @
                                      [HawkinsSutton, PlotUncertainties, GraphFraction],
                                    graph_fraction_of_total_variance parse to_int uncertainties
                                      ''2016'' None)))))))"
  by (simp add: notebook_def rbind_def call_def split: prod.splits sum.splits)

lemma fetch_prefix_notebook:
  "prefix (fst (fetch_loop net)) (fst (notebook net combine hs ps ph parse to_int))"
  by (auto simp add: notebook_run split: sum.splits prod.splits)

lemma set_traverse:
  "set (fst (traverse f xs)) \<subseteq> (\<Union>x \<in> set xs. set (fst (f x)))"
proof (induction xs)
  case Nil
  then show ?case by (simp add: ret_def)
next
  case (Cons x xs)
  show ?case
  proof (cases "snd (f x)")
    case (Inl e)
    then show ?thesis
      by (simp add: traverse_Cons_fail del: traverse.simps)
  next
    case (Inr y)
    with Cons.IH show ?thesis
      by (auto simp add: traverse_Cons_ok simp del: traverse.simps)
  qed
qed

lemma step_fetch_loop:
  assumes "e \<in> set (fst (fetch_loop net))"
  shows "step e = 1"
proof -
  from assms set_traverse [of "\<lambda>(model, member, scenario). fetch_one net model member scenario"
      "combos (zip models members) scenarios"]
  obtain model member scenario where "e \<in> set (fst (fetch_one net model member scenario))"
    unfolding fetch_loop_traverse by fastforce
  then show ?thesis
    by (auto simp add: fetch_one_eq Let_def split: sum.splits)
qed

lemma step_plot_models:
  "e \<in> set (fst (plot_models ps ens scenario ms)) \<Longrightarrow> \<exists>c. e = PlotLine c"
proof (induction ms)
  case Nil
  then show ?case by (simp add: ret_def)
next
  case (Cons m ms)
  then show ?case
    by (cases "sel_member ens scenario m"; cases "getitem ssp_col scenario";
        cases "ps (projr (sel_member ens scenario m)) (projr (getitem ssp_col scenario))")
      (auto simp add: lift_def call_def)
qed

lemma step_plot_scenarios:
  "e \<in> set (fst (plot_scenarios ps ens scs)) \<Longrightarrow> \<exists>c. e = PlotLine c"
proof (induction scs)
  case Nil
  then show ?case by (simp add: ret_def)
next
  case (Cons sc scs)
  obtain P r where p: "plot_models ps ens sc (e_model ens) = (P, r)"
    by (cases "plot_models ps ens sc (e_model ens)")
  with Cons step_plot_models [of e ps ens sc "e_model ens"] show ?case
    by (cases r) auto
qed

lemma sorted_const_steps:
  "(\<And>e. e \<in> set es \<Longrightarrow> step e = n) \<Longrightarrow> sorted (map step es)"
  by (induction es) auto

lemma sorted_notebook:
  "sorted (map step (fst (notebook net combine hs ps ph parse to_int)))"
proof -
  obtain F r where F: "fetch_loop net = (F, r)"
    by (cases "fetch_loop net")
  have sF: "step e = 1" if "e \<in> set F" for e
    using that step_fetch_loop [of e net] F by simp
  have sortF: "sorted (map step F)"
    using sF by (rule sorted_const_steps)
  have sP: "step e = 3"
    if "plot_scenarios ps ens scs = (P, r')" "e \<in> set P" for ens :: "real option ensemble" and scs P r' e
    using that step_plot_scenarios [of e ps ens scs] by auto
  have sortP: "sorted (map step P)"
    if "plot_scenarios ps ens scs = (P, r')" for ens :: "real option ensemble" and scs P r'
    using sP [OF that] by (rule sorted_const_steps)
  show ?thesis
    using sF sortF sP sortP
    by (auto simp add: notebook_run F sorted_append split: sum.splits prod.splits)
qed

lemma traverse_prefix:
  assumes "\<And>x. prefix (fst (f x)) (g x)"
    and "\<And>x y. snd (f x) = Inr y \<Longrightarrow> fst (f x) = g x"
  shows "prefix (fst (traverse f xs)) (concat (map g xs))"
proof (induction xs)
  case Nil
  then show ?case by (simp add: ret_def)
next
  case (Cons x xs)
  show ?case
  proof (cases "snd (f x)")
    case (Inl e)
    with assms(1) [of x] show ?thesis
      by (simp add: traverse_Cons_fail prefix_def del: traverse.simps) auto
  next
    case (Inr y)
    with assms(2) [of x y] Cons.IH show ?thesis
      by (simp add: traverse_Cons_ok del: traverse.simps)
  qed
qed

lemma fetch_loop_events:
  "prefix (fst (fetch_loop net))
     (concat (map (\<lambda>(model, member, scenario).
                     [HttpGet (url_shape model scenario member), ExpandDims model scenario])
        (combos (zip models members) scenarios)))"
  unfolding fetch_loop_traverse
  by (rule traverse_prefix) (auto simp add: fetch_one_eq Let_def split: sum.splits)

lemma notebook_membership:
  "(HawkinsSutton \<in> set (fst (notebook net combine hs ps ph parse to_int)) \<longrightarrow>
      ResampleMean \<in> set (fst (notebook net combine hs ps ph parse to_int)) \<and>
      CombineByCoords \<in> set (fst (notebook net combine hs ps ph parse to_int))) \<and>
   (GraphFraction \<in> set (fst (notebook net combine hs ps ph parse to_int)) \<longrightarrow>
      HawkinsSutton \<in> set (fst (notebook net combine hs ps ph parse to_int))) \<and>
   (CombineByCoords \<in> set (fst (notebook net combine hs ps ph parse to_int)) \<longrightarrow>
      (\<exists>data. snd (fetch_loop net) = Inr data)) \<and>
   count_list (fst (notebook net combine hs ps ph parse to_int)) ResampleMean \<le> 1 \<and>
   count_list (fst (notebook net combine hs ps ph parse to_int)) HawkinsSutton \<le> 1"
proof -
  obtain F r where F: "fetch_loop net = (F, r)"
    by (cases "fetch_loop net")
  have sF: "step e = 1" if "e \<in> set F" for e
    using that step_fetch_loop [of e net] F by simp
  have sP: "step e = 3"
    if "plot_scenarios ps ens scs = (P, r')" "e \<in> set P" for ens :: "real option ensemble" and scs P r' e
    using that step_plot_scenarios [of e ps ens scs] by auto
  have nF: "e \<notin> set F" "count_list F e = 0" if "step e \<noteq> 1" for e
    using that sF by (auto simp add: count_list_0_iff)
  have nP: "e \<notin> set P" "count_list P e = 0"
    if "plot_scenarios ps ens scs = (P, r')" "\<forall>c. e \<noteq> PlotLine c"
    for ens :: "real option ensemble" and scs P r' e
    using step_plot_scenarios [of e ps ens scs] that by (auto simp add: count_list_0_iff)
  show ?thesis
    using nF [of HawkinsSutton] nF [of GraphFraction] nF [of CombineByCoords] nF [of ResampleMean]
      nP [of _ _ _ _ HawkinsSutton] nP [of _ _ _ _ GraphFraction] nP [of _ _ _ _ ResampleMean]
      nP [of _ _ _ _ CombineByCoords]
    by (auto simp add: notebook_run F split: sum.splits prod.splits)
qed

lemma notebook_dataflow:
  assumes "snd (notebook net combine hs ps ph parse to_int) = Inr ax"
  shows "\<exists>data ens_mon ens mean uncertainties.
           snd (fetch_loop net) = Inr data \<and> combine data = Inr ens_mon \<and>
           resample_mean ens_mon = Inr ens \<and>
           snd (plot_scenarios ps ens (e_scenario ens)) = Inr () \<and>
           hs ens (''2016'', ''2030'') = Inr (mean, uncertainties) \<and>
           ph uncertainties = Inr () \<and>
           graph_fraction_of_total_variance parse to_int uncertainties ''2016'' None = Inr ax"
  using assms
  by (auto simp add: notebook_run split: sum.splits prod.splits)

lemma in_year_nth:
  assumes "length vs = length ts"
  shows "in_year ts vs y = map ((!) vs) (filter (\<lambda>j. year (ts ! j) = y) [0..<length ts])"
proof -
  have "zip ts vs = map (\<lambda>j. (ts ! j, vs ! j)) [0..<length ts]"
    using assms by (intro nth_equalityI) simp_all
  then show ?thesis
    by (simp add: in_year_def filter_map comp_def)
qed

lemma map_filter_present:
  "List.map_filter id (map f (filter P xs)) = List.map_filter (\<lambda>j. if P j then f j else None) xs"
  by (induction xs) (auto simp add: List.map_filter_simps split: option.splits)

lemma mean_in_year:
  assumes "length vs = length ts"
  shows "mean_skipna (in_year ts vs y) =
     (let present = List.map_filter (\<lambda>j. if year (ts ! j) = y then vs ! j else None) [0..<length ts]
      in if present = [] then None else Some (sum_list present / real (length present)))"
  by (simp add: mean_skipna_def in_year_nth [OF assms] map_filter_present)

lemma bins_nonempty: "ts \<noteq> [] \<Longrightarrow> bins ts = [year (hd ts) .. year (last ts)]"
  by (cases ts) (simp_all add: bins_def)

lemma resample_mean_values:
  assumes "resample_mean ens_mon = Inr ens"
  shows "\<exists>ts. e_time ens_mon = DateIndex ts \<and> ts \<noteq> [] \<and> sorted_wrt date_le ts \<and>
           e_time ens = DateIndex (map (\<lambda>y. \<lparr>year = y, month = 12, day = 31\<rparr>)
                                     [year (hd ts) .. year (last ts)]) \<and>
           list_all2 (\<lambda>(k, vs) (k', means). k' = k \<and>
                        length means = length [year (hd ts) .. year (last ts)] \<and>
                        (length vs = length ts \<longrightarrow>
                           (\<forall>i < length means. means ! i =
                              (let present = List.map_filter
                                     (\<lambda>j. if year (ts ! j) = year (hd ts) + int i then vs ! j else None)
                                     [0..<length ts]
                               in if present = [] then None
                                  else Some (sum_list present / real (length present))))))
             (e_values ens_mon) (e_values ens)"
proof -
  from assms obtain ts where ts: "e_time ens_mon = DateIndex ts" "ts \<noteq> []" "sorted_wrt date_le ts" and
    ens: "ens = ens_mon\<lparr>e_time := DateIndex (map (\<lambda>y. \<lparr>year = y, month = 12, day = 31\<rparr>) (bins ts)),
                        e_values := map (\<lambda>(k, vs). (k, map (\<lambda>y. mean_skipna (in_year ts vs y)) (bins ts)))
                                      (e_values ens_mon)\<rparr>"
    by (auto simp add: resample_mean_def split: index.splits if_splits)
  let ?ys = "[year (hd ts) .. year (last ts)]"
  have b: "bins ts = ?ys"
    using ts(2) by (rule bins_nonempty)
  have nth: "?ys ! i = year (hd ts) + int i" if "i < length ?ys" for i
    using that by simp
  have "list_all2 (\<lambda>(k, vs) (k', means). k' = k \<and> length means = length ?ys \<and>
                        (length vs = length ts \<longrightarrow>
                           (\<forall>i < length means. means ! i =
                              (let present = List.map_filter
                                     (\<lambda>j. if year (ts ! j) = year (hd ts) + int i then vs ! j else None)
                                     [0..<length ts]
                               in if present = [] then None
                                  else Some (sum_list present / real (length present))))))
          rs (map (\<lambda>(k, vs). (k, map (\<lambda>y. mean_skipna (in_year ts vs y)) ?ys)) rs)" for rs
  proof (induction rs)
    case Nil
    then show ?case by simp
  next
    case (Cons r rs)
    obtain k vs where r: "r = (k, vs)"
      by (cases r)
    have "map (\<lambda>y. mean_skipna (in_year ts vs y)) ?ys ! i =
        (let present = List.map_filter
               (\<lambda>j. if year (ts ! j) = year (hd ts) + int i then vs ! j else None) [0..<length ts]
         in if present = [] then None else Some (sum_list present / real (length present)))"
      if "length vs = length ts" "i < length ?ys" for i
      using that by (simp only: nth_map nth mean_in_year)
    with Cons show ?case
      by (simp add: r)
  qed
  with ts ens b show ?thesis
    by simp
qed

lemma annual0_eq:
  "bind (bind (snd (fetch_loop net0)) combine0) resample_mean = Inr annual0"
  by (simp add: fetch0 annual0_def combos_notebook)
    (simp add: combine0_def member0_def table0_def resample_mean_def
      date_le_def bins_def models_def scenarios_def dec31_def upto.simps
      in_year_def mean_skipna_def List.map_filter_def)

lemma notebook0: "notebook net0 combine0 hs0 plot_series0 plot_hue0 year_start py_int = (trace0, Inr axes0)"
  using annual0_eq
  by (simp add: notebook_run fetch0 annual0_def combos_notebook split: sum.splits)
    (auto simp add: models_def scenarios_def ret_def rbind_def
      lift_def call_def sel_member_def getitem_def ssp_col_def hs0_def plot_series0_def
      plot_hue0_def graph0 trace0_def
      simp del: rbind_Inr)

lemma requests_plot_lines:
  "(\<And>e. e \<in> set es \<Longrightarrow> \<exists>c. e = PlotLine c) \<Longrightarrow> requests es = []"
proof (induction es)
  case Nil
  then show ?case by simp
next
  case (Cons e es)
  from Cons.prems [of e] obtain c where "e = PlotLine c" by auto
  with Cons show ?case by simp
qed

lemma requests_notebook:
  "requests (fst (notebook net combine hs ps ph parse to_int)) = requests (fst (fetch_loop net))"
proof -
  have "requests P = []"
    if "plot_scenarios ps ens scs = (P, r)" for ens :: "real option ensemble" and scs P r
    using step_plot_scenarios [of _ ps ens scs] that by (intro requests_plot_lines) simp
  then show ?thesis
    by (auto simp add: notebook_run requests_append split: sum.splits prod.splits)
qed



text \<open>
  C3, as the code has it. In every run of the notebook the calls come in this order:
  the fetch loop, in which each series is fetched and then tagged before the next one
  is fetched; the combination, only when every series was fetched; the resampling; the
  partitioning, which happens only after the resampling, and neither happens twice;
  the fraction of total variance, only after the partitioning. In a run that ends well
  the partitioning was given the annual means of the combined series, and the function
  was given its variances. The resampling returns one value for each calendar year
  from the first to the last date, and each annual value of a series is the arithmetic
  mean of the values of its calendar year that are present: their sum divided by
  their number.
\<close>

theorem notebook_steps:
  "sorted (map step (fst (notebook net combine hs ps ph parse to_int))) \<and>
   prefix (fst (fetch_loop net)) (fst (notebook net combine hs ps ph parse to_int)) \<and>
   prefix (fst (fetch_loop net))
     (concat (map (\<lambda>(model, member, scenario).
                     [HttpGet (url_shape model scenario member), ExpandDims model scenario])
        (combos (zip models members) scenarios))) \<and>
   (CombineByCoords \<in> set (fst (notebook net combine hs ps ph parse to_int)) \<longrightarrow>
      (\<exists>data. snd (fetch_loop net) = Inr data)) \<and>
   (HawkinsSutton \<in> set (fst (notebook net combine hs ps ph parse to_int)) \<longrightarrow>
      ResampleMean \<in> set (fst (notebook net combine hs ps ph parse to_int)) \<and>
      CombineByCoords \<in> set (fst (notebook net combine hs ps ph parse to_int))) \<and>
   (GraphFraction \<in> set (fst (notebook net combine hs ps ph parse to_int)) \<longrightarrow>
      HawkinsSutton \<in> set (fst (notebook net combine hs ps ph parse to_int))) \<and>
   count_list (fst (notebook net combine hs ps ph parse to_int)) ResampleMean \<le> 1 \<and>
   count_list (fst (notebook net combine hs ps ph parse to_int)) HawkinsSutton \<le> 1 \<and>
   (\<forall>ax. snd (notebook net combine hs ps ph parse to_int) = Inr ax \<longrightarrow>
      (\<exists>data ens_mon ens mean uncertainties.
          snd (fetch_loop net) = Inr data \<and> combine data = Inr ens_mon \<and>
          resample_mean ens_mon = Inr ens \<and>
          snd (plot_scenarios ps ens (e_scenario ens)) = Inr () \<and>
          hs ens (''2016'', ''2030'') = Inr (mean, uncertainties) \<and>
          ph uncertainties = Inr () \<and>
          graph_fraction_of_total_variance parse to_int uncertainties ''2016'' None = Inr ax)) \<and>
   (\<forall>ens_mon ens. resample_mean ens_mon = Inr ens \<longrightarrow>
      (\<exists>ts. e_time ens_mon = DateIndex ts \<and> ts \<noteq> [] \<and> sorted_wrt date_le ts \<and>
         e_time ens = DateIndex (map (\<lambda>y. \<lparr>year = y, month = 12, day = 31\<rparr>)
                                   [year (hd ts) .. year (last ts)]) \<and>
         list_all2 (\<lambda>(k, vs) (k', means). k' = k \<and>
                      length means = length [year (hd ts) .. year (last ts)] \<and>
                      (length vs = length ts \<longrightarrow>
                         (\<forall>i < length means. means ! i =
                            (let present = List.map_filter
                                   (\<lambda>j. if year (ts ! j) = year (hd ts) + int i then vs ! j else None)
                                   [0..<length ts]
                             in if present = [] then None
                                else Some (sum_list present / real (length present))))))
           (e_values ens_mon) (e_values ens)))"
  using sorted_notebook [of net combine hs ps ph parse to_int]
    fetch_prefix_notebook [of net combine hs ps ph parse to_int]
    fetch_loop_events [of net] notebook_membership [of net combine hs ps ph parse to_int]
    notebook_dataflow [of net combine hs ps ph parse to_int] resample_mean_values
  by (intro conjI allI impI) blast+

theorem notebook_steps_witness:
  "notebook net0 combine0 hs0 plot_series0 plot_hue0 year_start py_int = (trace0, Inr axes0) \<and>
   sorted (map step trace0) \<and>
   bind (bind (snd (fetch_loop net0)) combine0) resample_mean = Inr annual0 \<and>
   List.map_filter (\<lambda>j. if year ([\<lparr>year = 2015, month = 6, day = 1\<rparr>, \<lparr>year = 2015, month = 12, day = 1\<rparr>,
                                 \<lparr>year = 2016, month = 6, day = 1\<rparr>, \<lparr>year = 2016, month = 12, day = 1\<rparr>] ! j) = 2015
                        then [Some 1, Some 3, Some 5, None] ! j else None) [0..<4] = [1, 3] \<and>
   sum_list [1, 3] / real (length [1, 3 :: real]) = 2"
proof -
  note t = notebook_steps [of net0 combine0 hs0 plot_series0 plot_hue0 year_start py_int]
  have "sorted (map step (fst (notebook net0 combine0 hs0 plot_series0 plot_hue0 year_start py_int)))"
    using t by blast
  then have 1: "sorted (map step trace0)"
    by (simp add: notebook0)
  have 2: "List.map_filter (\<lambda>j. if year ([\<lparr>year = 2015, month = 6, day = 1\<rparr>, \<lparr>year = 2015, month = 12, day = 1\<rparr>,
                                 \<lparr>year = 2016, month = 6, day = 1\<rparr>, \<lparr>year = 2016, month = 12, day = 1\<rparr>] ! j) = 2015
                        then [Some 1, Some 3, Some 5, None] ! j else None) [0..<4] = [1, 3]"
    by (simp add: List.map_filter_simps upt_rec)
  from 1 2 show ?thesis
    by (simp add: notebook0 annual0_eq)
qed

text \<open>
  C3, as the claim states it, fails: with the steps numbered as the claim numbers them,
  the tagging of a series being part of step 2, the calls of a run are not in the order
  of the steps. The first series is tagged (step 2) before the second one is fetched
  (step 1): tagging is part of the loop and alternates with fetching.
\<close>

theorem tagging_alternates_with_fetching:
  "notebook net0 combine0 hs0 plot_series0 plot_hue0 year_start py_int = (trace0, Inr axes0) \<and>
   \<not> sorted (map claimed_step trace0) \<and>
   take 3 trace0 =
     [HttpGet (url_shape ''ACCESS-CM2'' ''ssp245'' ''r1i1p1f1''), ExpandDims ''ACCESS-CM2'' ''ssp245'',
      HttpGet (url_shape ''ACCESS-CM2'' ''ssp370'' ''r1i1p1f1'')] \<and>
   map claimed_step (take 3 trace0) = [1, 2, 1]"
  by (simp add: notebook0) (simp add: trace0_def)

end
